theory Spec2Isabelle
  imports Complex_Main
begin

section \<open>Conventions\<close>

text \<open>
  The analysis pipeline is TypeScript. Its \<open>number\<close> values are modelled as
  \<^typ>\<open>real\<close> (IEEE rounding, NaN and overflow are outside the model), array indices
  and lengths as \<^typ>\<open>nat\<close>, sizes taken from a configuration as \<^typ>\<open>int\<close>.
  A value that may be \<open>null\<close> is an \<^typ>\<open>'a option\<close>; a thrown \<open>Error\<close> is the left
  summand of a sum type.
\<close>

section \<open>Range normalisation\<close>

text \<open>
  \<open>normalizeValue\<close> of the server pipeline:
  \<^verbatim>\<open>if (max === min) return 0.5;
  return Math.max(0, Math.min(1, (value - min) / (max - min)));\<close>
\<close>

definition normalizeValue :: "real \<Rightarrow> real \<Rightarrow> real \<Rightarrow> real" where
  "normalizeValue v mn mx =
     (if mx = mn then 0.5 else max 0 (min 1 ((v - mn) / (mx - mn))))"

text \<open>
  \<open>norm\<close> of the visual attribute mapper (the name \<open>norm\<close> is taken in HOL):
  \<^verbatim>\<open>if (max <= min) return 0.5;
  return Math.max(0, Math.min(1, (value - min) / (max - min)));\<close>
\<close>

definition norm_range :: "real \<Rightarrow> real \<Rightarrow> real \<Rightarrow> real" where
  "norm_range v mn mx =
     (if mx \<le> mn then 0.5 else max 0 (min 1 ((v - mn) / (mx - mn))))"

section \<open>The frame loop\<close>

text \<open>
  What is thrown: an \<open>Error\<close> with its message, or the engine's \<open>RangeError\<close> (a typed
  array of negative length, a call with more arguments than the engine accepts). A
  call either returns, throws, or never returns.
\<close>

datatype AnalysisError = Error string | RangeError

datatype 'a Outcome = Returns 'a | Throws AnalysisError | Diverges

text \<open>
  \<open>Math.floor(a / b)\<close> on two integers: a JavaScript number that is an integer, an
  infinity or NaN (division by zero does not throw).
\<close>

datatype jsnum = Fin int | PosInf | NegInf | NaN

definition floorDiv :: "int \<Rightarrow> int \<Rightarrow> jsnum" where
  "floorDiv a b =
     (if b = 0 then (if 0 < a then PosInf else if a < 0 then NegInf else NaN)
      else Fin \<lfloor>real_of_int a / real_of_int b\<rfloor>)"

text \<open>The loop test \<open>i < numFrames\<close>; a comparison with NaN is false.\<close>

fun js_less :: "nat \<Rightarrow> jsnum \<Rightarrow> bool" where
  "js_less i (Fin b) = (int i < b)"
| "js_less i PosInf = True"
| "js_less i NegInf = False"
| "js_less i NaN = False"

subsection \<open>Client: \<open>extractFeatures\<close>\<close>

record FrameFeatures =
  time :: real
  mfcc :: "real list"
  chroma :: "real list"
  f0 :: "real option"
  f0Conf :: real
  loudness :: real
  centroid :: real
  bandwidth :: real
  flatness :: real
  flux :: real

record AnalysisConfig =
  frameSize :: int
  hopSize :: int
  numMFCC :: int
  numMelBands :: int

text \<open>
  The body of the loop computes the magnitude spectrum of the frame at \<open>start\<close> and the
  features from it; the previous spectrum is carried to the next iteration for the flux.
  The extractors are a parameter \<open>an\<close> of the model: \<open>an start prevMag\<close> returns the
  features of the frame (its \<open>time\<close> is set by the loop) and its spectrum.

  \<^verbatim>\<open>for (let i = 0; i < numFrames; i++) {
    const start = i * cfg.hopSize;
    const time = start / sampleRate;
    ...
    frames.push({ time, mfcc, chroma, f0, f0Conf, loudness, ... });
    prevMag = mag;
  }\<close>
  The loop takes fuel: with \<open>numFrames = Infinity\<close> the test never fails and the source
  does not return, which is the value \<open>None\<close>.
\<close>

fun featureLoop ::
  "(int \<Rightarrow> 'm option \<Rightarrow> FrameFeatures \<times> 'm) \<Rightarrow> int \<Rightarrow> real \<Rightarrow> jsnum \<Rightarrow>
   nat \<Rightarrow> nat \<Rightarrow> 'm option \<Rightarrow> FrameFeatures list \<Rightarrow> FrameFeatures list option" where
  "featureLoop an hop sampleRate numFrames 0 i prevMag frames =
     (if js_less i numFrames then None else Some frames)"
| "featureLoop an hop sampleRate numFrames (Suc fuel) i prevMag frames =
     (if js_less i numFrames then
        (let start = int i * hop;
             t = real_of_int start / sampleRate;
             (fr, mag) = an start prevMag
         in featureLoop an hop sampleRate numFrames fuel (Suc i) (Some mag)
              (frames @ [fr\<lparr>time := t\<rparr>]))
      else Some frames)"

text \<open>
  \<open>extractFeatures\<close> on the mono mix of \<open>numSamples\<close> samples. Before the loop,
  \<open>hannWindow\<close> allocates a typed array of \<open>frameSize\<close> elements and
  \<open>createMelFilterbank\<close> one of \<open>numMelBands + 2\<close>: a negative length throws a
  \<open>RangeError\<close>. In the body of the loop \<open>computeMFCC\<close> allocates one of \<open>numMFCC\<close>
  elements (in \<open>dctII\<close>), so a negative \<open>numMFCC\<close> throws in the first iteration, if
  there is one. The loop ends exactly when the fuel \<open>numFrames\<close> (for a finite bound)
  suffices; for an infinite bound no fuel does.
\<close>

definition loopFuel :: "jsnum \<Rightarrow> nat" where
  "loopFuel b = (case b of Fin k \<Rightarrow> nat k | _ \<Rightarrow> 0)"

definition extractFeatures ::
  "(int \<Rightarrow> 'm option \<Rightarrow> FrameFeatures \<times> 'm) \<Rightarrow> AnalysisConfig \<Rightarrow> nat \<Rightarrow> real \<Rightarrow>
   FrameFeatures list Outcome" where
  "extractFeatures an cfg numSamples sampleRate =
     (if frameSize cfg < 0 \<or> numMelBands cfg + 2 < 0 then Throws RangeError
      else (let numFrames = floorDiv (int numSamples - frameSize cfg) (hopSize cfg)
            in if js_less 0 numFrames \<and> numMFCC cfg < 0 then Throws RangeError
               else (case featureLoop an (hopSize cfg) sampleRate numFrames
                            (loopFuel numFrames) 0 None [] of
                       None \<Rightarrow> Diverges
                     | Some frames \<Rightarrow> Returns frames)))"

text \<open>The default configuration of the client.\<close>

definition defaultConfig :: AnalysisConfig where
  "defaultConfig = \<lparr> frameSize = 2048, hopSize = 512, numMFCC = 40, numMelBands = 80 \<rparr>"

subsection \<open>Server: \<open>extractAudioFrames\<close>\<close>

record AudioFrame =
  t :: real
  pitch :: real
  centroid :: real
  bandwidth :: real
  amplitude :: real
  onsetStrength :: real
  spectralFlux :: real
  spectralFlatness :: real
  beatStrength :: real
  bandLow :: real
  bandMid :: real
  bandHigh :: real
  onsetLow :: real
  onsetMid :: real
  onsetHigh :: real

text \<open>
  \<open>Math.max(...xs)\<close> and \<open>Math.min(...xs)\<close> on a list that is non-empty and that the
  engine can spread.
\<close>

fun maxOf :: "real list \<Rightarrow> real" where
  "maxOf (x # xs) = foldl max x xs"

fun minOf :: "real list \<Rightarrow> real" where
  "minOf (x # xs) = foldl min x xs"

text \<open>
  \<open>Math.max(...xs)\<close> on a list of any length: the spread passes every element as an
  argument, and a call with more arguments than the engine accepts throws a
  \<open>RangeError\<close>. The bound depends on the engine and on its stack; it is the parameter
  \<open>argLimit\<close> of the model.
\<close>

definition spreadMax :: "nat \<Rightarrow> real list \<Rightarrow> AnalysisError + real" where
  "spreadMax argLimit xs = (if length xs > argLimit then Inl RangeError else Inr (maxOf xs))"

text \<open>
  \<open>applyTemporalSmoothing\<close>: one forward exponential moving average with
  \<open>alpha = 0.5\<close>, seeded by the first frame, written back into the frames. Lists of
  fewer than three frames are left as they are.
\<close>

record Smooth =
  smoothPitch :: real
  smoothCentroid :: real
  smoothAmplitude :: real
  smoothBandwidth :: real
  smoothBandLow :: real
  smoothBandMid :: real
  smoothBandHigh :: real

definition smoothStep :: "Smooth \<Rightarrow> AudioFrame \<Rightarrow> Smooth" where
  "smoothStep s f =
     \<lparr> smoothPitch = 0.5 * pitch f + (1 - 0.5) * smoothPitch s,
       smoothCentroid = 0.5 * AudioFrame.centroid f + (1 - 0.5) * smoothCentroid s,
       smoothAmplitude = 0.5 * amplitude f + (1 - 0.5) * smoothAmplitude s,
       smoothBandwidth = 0.5 * AudioFrame.bandwidth f + (1 - 0.5) * smoothBandwidth s,
       smoothBandLow = 0.5 * bandLow f + (1 - 0.5) * smoothBandLow s,
       smoothBandMid = 0.5 * bandMid f + (1 - 0.5) * smoothBandMid s,
       smoothBandHigh = 0.5 * bandHigh f + (1 - 0.5) * smoothBandHigh s \<rparr>"

fun smoothLoop :: "Smooth \<Rightarrow> AudioFrame list \<Rightarrow> AudioFrame list" where
  "smoothLoop s [] = []"
| "smoothLoop s (f # fs) =
     (let s' = smoothStep s f
      in f\<lparr> pitch := smoothPitch s', AudioFrame.centroid := smoothCentroid s',
             amplitude := smoothAmplitude s', AudioFrame.bandwidth := smoothBandwidth s',
             bandLow := smoothBandLow s', bandMid := smoothBandMid s',
             bandHigh := smoothBandHigh s' \<rparr> # smoothLoop s' fs)"

definition applyTemporalSmoothing :: "AudioFrame list \<Rightarrow> AudioFrame list" where
  "applyTemporalSmoothing frames =
     (if length frames < 3 then frames
      else (let first = hd frames
            in smoothLoop \<lparr> smoothPitch = pitch first, smoothCentroid = AudioFrame.centroid first,
                 smoothAmplitude = amplitude first, smoothBandwidth = AudioFrame.bandwidth first,
                 smoothBandLow = bandLow first, smoothBandMid = bandMid first,
                 smoothBandHigh = bandHigh first \<rparr> frames))"

text \<open>
  \<open>computeBandOnsets\<close>: the positive part of each band's rise over the previous frame,
  then each band divided by its maximum over the track (at least 0.001). Each maximum
  is \<open>Math.max(...frames.map(f => f.onsetLow), 0.001)\<close>, a call with one argument more
  than there are frames.
\<close>

fun onsetLoop :: "real \<Rightarrow> real \<Rightarrow> real \<Rightarrow> AudioFrame list \<Rightarrow> AudioFrame list" where
  "onsetLoop prevLow prevMid prevHigh [] = []"
| "onsetLoop prevLow prevMid prevHigh (f # fs) =
     f\<lparr> onsetLow := max 0 (bandLow f - prevLow), onsetMid := max 0 (bandMid f - prevMid),
        onsetHigh := max 0 (bandHigh f - prevHigh) \<rparr>
     # onsetLoop (bandLow f) (bandMid f) (bandHigh f) fs"

definition computeBandOnsets :: "nat \<Rightarrow> AudioFrame list \<Rightarrow> AnalysisError + AudioFrame list" where
  "computeBandOnsets argLimit frames =
     (if length frames < 2 then Inr frames
      else (let first = hd frames;
                fs = onsetLoop (bandLow first) (bandMid first) (bandHigh first) frames
            in case spreadMax argLimit (map onsetLow fs @ [0.001]) of
                 Inl e \<Rightarrow> Inl e
               | Inr maxOnsetLow \<Rightarrow>
                  (case spreadMax argLimit (map onsetMid fs @ [0.001]) of
                     Inl e \<Rightarrow> Inl e
                   | Inr maxOnsetMid \<Rightarrow>
                      (case spreadMax argLimit (map onsetHigh fs @ [0.001]) of
                         Inl e \<Rightarrow> Inl e
                       | Inr maxOnsetHigh \<Rightarrow>
                           Inr (map (\<lambda>f. f\<lparr> onsetLow := onsetLow f / maxOnsetLow,
                                             onsetMid := onsetMid f / maxOnsetMid,
                                             onsetHigh := onsetHigh f / maxOnsetHigh \<rparr>) fs)))))"

text \<open>
  \<open>detectBeats\<close>: peaks of the normalised spectral flux above a sliding-mean threshold
  get a beat strength, and the strengths are renormalised by their maximum. Fewer than
  ten frames, or a maximal flux of 0, leave the frames as they are. The window of frame
  \<open>i\<close> starts at \<open>Math.max(0, i - windowSize)\<close>, which is the subtraction of \<^typ>\<open>nat\<close>.
  \<open>Math.max(...fluxValues)\<close> and \<open>Math.max(...beatStrengths)\<close> spread one argument per
  frame.
\<close>

definition beatThreshold :: "real list \<Rightarrow> nat \<Rightarrow> nat \<Rightarrow> real" where
  "beatThreshold normalizedFlux windowSize i =
     (let start = i - windowSize;
          end' = min (length normalizedFlux) (i + windowSize + 1);
          s = sum_list (map (\<lambda>j. normalizedFlux ! j) [start..<end'])
      in (s / real (end' - start)) * 1.3 + 0.1)"

definition markBeat :: "real list \<Rightarrow> nat \<Rightarrow> nat \<Rightarrow> AudioFrame \<Rightarrow> AudioFrame" where
  "markBeat normalizedFlux windowSize i f =
     (if 1 \<le> i \<and> i + 1 < length normalizedFlux \<and>
         normalizedFlux ! i > normalizedFlux ! (i - 1) \<and>
         normalizedFlux ! i \<ge> normalizedFlux ! (i + 1) \<and>
         normalizedFlux ! i > beatThreshold normalizedFlux windowSize i
      then f\<lparr> beatStrength := min 1 (normalizedFlux ! i * 1.5) \<rparr> else f)"

definition detectBeats :: "nat \<Rightarrow> AudioFrame list \<Rightarrow> AnalysisError + AudioFrame list" where
  "detectBeats argLimit frames =
     (if length frames < 10 then Inr frames
      else (let fluxValues = map spectralFlux frames
            in case spreadMax argLimit fluxValues of
                 Inl e \<Rightarrow> Inl e
               | Inr maxFlux \<Rightarrow>
                   if maxFlux = 0 then Inr frames
                   else (let normalizedFlux = map (\<lambda>f. f / maxFlux) fluxValues;
                             windowSize = min 10 (length frames div 4);
                             fs = map (\<lambda>(i, f). markBeat normalizedFlux windowSize i f)
                                    (zip [0..<length frames] frames)
                         in case spreadMax argLimit (map beatStrength fs) of
                              Inl e \<Rightarrow> Inl e
                            | Inr maxBeatStrength \<Rightarrow>
                                if maxBeatStrength > 0
                                then Inr (map (\<lambda>f. f\<lparr> beatStrength :=
                                                 beatStrength f / maxBeatStrength \<rparr>) fs)
                                else Inr fs)))"

text \<open>
  The frame loop of \<open>extractAudioFrames\<close>, with \<open>frameSize = 2048\<close> and
  \<open>hopSize = 512\<close> fixed. The per-frame measurements (RMS, zero crossings, the DFT and
  what is read off it) are a parameter \<open>an\<close>: \<open>an start prevRMS prevFFT\<close> returns the
  frame (its \<open>t\<close> is set by the loop, its \<open>beatStrength\<close> and band onsets are 0) and its
  spectrum. The bound is finite, so the loop is a terminating recursion.
\<close>

function audioFrameLoop ::
  "(nat \<Rightarrow> real \<Rightarrow> 'm option \<Rightarrow> AudioFrame \<times> 'm) \<Rightarrow> real \<Rightarrow> int \<Rightarrow>
   nat \<Rightarrow> real \<Rightarrow> 'm option \<Rightarrow> AudioFrame list \<Rightarrow> AudioFrame list" where
  "audioFrameLoop an sampleRate numFrames i prevRMS prevFFT frames =
     (if int i < numFrames then
        (let start = i * 512;
             tm = real start / sampleRate;
             (fr, fft) = an start prevRMS prevFFT
         in audioFrameLoop an sampleRate numFrames (Suc i) (amplitude fr) (Some fft)
              (frames @ [fr\<lparr> t := tm, beatStrength := 0, onsetLow := 0, onsetMid := 0,
                             onsetHigh := 0 \<rparr>]))
      else frames)"
  by pat_completeness auto
termination
  by (relation "measure (\<lambda>(an, sr, numFrames, i, r, m, fs). nat (numFrames - int i))") auto

declare audioFrameLoop.simps [simp del]

text \<open>
  \<open>extractAudioFrames\<close>: the loop, then the three passes over the frames. A
  \<open>RangeError\<close> of a pass is not caught.
\<close>

definition extractAudioFrames ::
  "nat \<Rightarrow> (nat \<Rightarrow> real \<Rightarrow> 'm option \<Rightarrow> AudioFrame \<times> 'm) \<Rightarrow> real list \<Rightarrow> real \<Rightarrow>
   AnalysisError + AudioFrame list" where
  "extractAudioFrames argLimit an samples sampleRate =
     (let numFrames = \<lfloor>(real (length samples) - 2048) / 512\<rfloor>;
          frames = audioFrameLoop an sampleRate numFrames 0 0 None []
      in case computeBandOnsets argLimit (applyTemporalSmoothing frames) of
           Inl e \<Rightarrow> Inl e
         | Inr fs \<Rightarrow> detectBeats argLimit fs)"

section \<open>Segmentation into phrases\<close>

text \<open>
  A phrase as \<open>segmentIntoVerses\<close> returns it: \<open>{ start, end, frames }\<close> (\<open>end\<close> is a
  keyword of Isabelle, so the fields carry a prefix).
\<close>

record 'f VerseSegment =
  vstart :: real
  vend :: real
  vframes :: "'f list"

text \<open>
  The scan over the frames. The state of the source's loop is the list of closed
  phrases, \<open>verseStart\<close>, \<open>verseFrames\<close>, \<open>inSilence\<close> and \<open>silenceStart\<close>; the function
  returns what the code after the loop reads. The frame type is a parameter, read through
  \<open>amp\<close> (the amplitude) and \<open>tm\<close> (the time): both server variants share the text of
  this function, one reads \<open>frame.amplitude\<close>, the other \<open>frame.amplitude || 0\<close>.

  \<^verbatim>\<open>const isSilent = frame.amplitude < silenceThreshold;
  if (isSilent && !inSilence) {
    inSilence = true; silenceStart = frame.t;
  } else if (!isSilent && inSilence) {
    const silenceDuration = frame.t - silenceStart;
    if (silenceDuration > minSilenceDuration && verseFrames.length > 0) {
      const verseDuration = silenceStart - verseStart;
      if (verseDuration >= minVerseDuration)
        verses.push({ start: verseStart, end: silenceStart, frames: [...verseFrames] });
      verseStart = frame.t; verseFrames = [];
    }
    inSilence = false;
  }
  if (!isSilent) verseFrames.push(frame);\<close>
\<close>

definition minSilenceDuration :: real where
  "minSilenceDuration = 0.2"

definition minVerseDuration :: real where
  "minVerseDuration = 0.3"

fun segLoop ::
  "('f \<Rightarrow> real) \<Rightarrow> ('f \<Rightarrow> real) \<Rightarrow> real \<Rightarrow> 'f list \<Rightarrow> 'f VerseSegment list \<Rightarrow> real \<Rightarrow>
   'f list \<Rightarrow> bool \<Rightarrow> real \<Rightarrow> 'f VerseSegment list \<times> real \<times> 'f list" where
  "segLoop amp tm silenceThreshold [] vs verseStart verseFrames inSilence silenceStart =
     (vs, verseStart, verseFrames)"
| "segLoop amp tm silenceThreshold (frame # rest) vs verseStart verseFrames inSilence
     silenceStart =
     (let isSilent = amp frame < silenceThreshold
      in if isSilent \<and> \<not> inSilence then
           segLoop amp tm silenceThreshold rest vs verseStart verseFrames True (tm frame)
         else if \<not> isSilent \<and> inSilence then
           (if tm frame - silenceStart > minSilenceDuration \<and> verseFrames \<noteq> [] then
              segLoop amp tm silenceThreshold rest
                (if silenceStart - verseStart \<ge> minVerseDuration
                 then vs @ [\<lparr> vstart = verseStart, vend = silenceStart,
                              vframes = verseFrames \<rparr>]
                 else vs)
                (tm frame) [frame] False silenceStart
            else
              segLoop amp tm silenceThreshold rest vs verseStart (verseFrames @ [frame])
                False silenceStart)
         else
           segLoop amp tm silenceThreshold rest vs verseStart
             (if isSilent then verseFrames else verseFrames @ [frame]) inSilence
             silenceStart)"

text \<open>
  The silence-based path: the scan with threshold \<open>maxAmp * 0.1\<close>, then the trailing run,
  pushed when it has a frame:
  \<^verbatim>\<open>if (verseFrames.length > 0)
    verses.push({ start: verseStart, end: duration, frames: verseFrames });\<close>
\<close>

definition silenceVerses ::
  "('f \<Rightarrow> real) \<Rightarrow> ('f \<Rightarrow> real) \<Rightarrow> 'f list \<Rightarrow> real \<Rightarrow> 'f VerseSegment list" where
  "silenceVerses amp tm frames duration =
     (let maxAmp = maxOf (map amp frames);
          silenceThreshold = maxAmp * 0.1;
          (vs, verseStart, verseFrames) =
             segLoop amp tm silenceThreshold frames [] 0 [] False 0
      in if verseFrames \<noteq> [] then
           vs @ [\<lparr> vstart = verseStart, vend = duration, vframes = verseFrames \<rparr>]
         else vs)"

text \<open>
  The silence that first closes a run. This is the scan of \<open>segLoop\<close> followed only as
  far as the first time it reaches the assignment \<open>verseStart = frame.t\<close>: the result is
  the value \<open>silenceStart\<close> has there, and \<open>None\<close> when the scan never gets there. Up to
  that point \<open>verseFrames\<close> is never emptied, so of the run only \<open>seen\<close>, the test
  \<open>verseFrames.length > 0\<close>, is kept: it becomes true at the first non-silent frame.
\<close>

fun firstClosingSilence ::
  "('f \<Rightarrow> real) \<Rightarrow> ('f \<Rightarrow> real) \<Rightarrow> real \<Rightarrow> 'f list \<Rightarrow> bool \<Rightarrow> bool \<Rightarrow> real \<Rightarrow> real option" where
  "firstClosingSilence amp tm silenceThreshold [] seen inSilence silenceStart = None"
| "firstClosingSilence amp tm silenceThreshold (frame # rest) seen inSilence silenceStart =
     (let isSilent = amp frame < silenceThreshold
      in if isSilent \<and> \<not> inSilence then
           firstClosingSilence amp tm silenceThreshold rest seen True (tm frame)
         else if \<not> isSilent \<and> inSilence then
           (if tm frame - silenceStart > minSilenceDuration \<and> seen then Some silenceStart
            else firstClosingSilence amp tm silenceThreshold rest True False silenceStart)
         else
           firstClosingSilence amp tm silenceThreshold rest (seen \<or> \<not> isSilent) inSilence
             silenceStart)"

text \<open>
  The fixed-interval fallback, taken when the silence-based path gave nothing:
  \<^verbatim>\<open>const segmentDuration = duration / Math.min(4, Math.ceil(duration / 5));
  const numSegments = Math.ceil(duration / segmentDuration);
  for (let i = 0; i < numSegments; i++) { ... }\<close>
  When the divisor is 0 the quotient is an infinity or NaN, \<open>numSegments\<close> is 0 or NaN
  and the body never runs.
\<close>

definition fixedSegments :: "('f \<Rightarrow> real) \<Rightarrow> 'f list \<Rightarrow> real \<Rightarrow> 'f VerseSegment list" where
  "fixedSegments tm frames duration =
     (let m = min 4 \<lceil>duration / 5\<rceil>
      in if m = 0 then []
         else (let segmentDuration = duration / real_of_int m;
                   numSegments = \<lceil>duration / segmentDuration\<rceil>
               in concat (map (\<lambda>i.
                    (let start = real i * segmentDuration;
                         end' = min (real (i + 1) * segmentDuration) duration;
                         segmentFrames = filter (\<lambda>f. tm f \<ge> start \<and> tm f < end') frames
                     in if segmentFrames \<noteq> []
                        then [\<lparr> vstart = start, vend = end', vframes = segmentFrames \<rparr>]
                        else []))
                  [0..<nat numSegments])))"

definition segmentIntoVersesWith ::
  "('f \<Rightarrow> real) \<Rightarrow> ('f \<Rightarrow> real) \<Rightarrow> 'f list \<Rightarrow> real \<Rightarrow> 'f VerseSegment list" where
  "segmentIntoVersesWith amp tm frames duration =
     (if frames = [] then []
      else (let vs = silenceVerses amp tm frames duration
            in if vs = [] then fixedSegments tm frames duration else vs))"

text \<open>\<open>segmentIntoVerses\<close> of the spectral server pipeline.\<close>

definition segmentIntoVerses :: "AudioFrame list \<Rightarrow> real \<Rightarrow> AudioFrame VerseSegment list" where
  "segmentIntoVerses frames duration = segmentIntoVersesWith amplitude t frames duration"

section \<open>The nearest-neighbour graph\<close>

datatype Band = Low | Mid | High

record VisualizationPoint =
  x :: real
  y :: real
  z :: real
  size :: real
  color :: "real \<times> real \<times> real"
  time :: real
  beatStrength :: real
  complexity :: real
  band :: Band
  bandOffsetZ :: real
  onsetLow :: real
  onsetMid :: real
  onsetHigh :: real

text \<open>
  For the point \<open>i\<close>: the other points with their Euclidean distance, sorted by distance.
  \<open>Array.prototype.sort\<close> is stable, as \<^const>\<open>sort_key\<close> is.
\<close>

definition pointDist :: "VisualizationPoint \<Rightarrow> VisualizationPoint \<Rightarrow> real" where
  "pointDist p q =
     (let dx = x p - x q; dy = y p - y q; dz = z p - z q
      in sqrt (dx * dx + dy * dy + dz * dz))"

definition sortedDistances :: "VisualizationPoint list \<Rightarrow> nat \<Rightarrow> (nat \<times> real) list" where
  "sortedDistances points i =
     sort_key snd
       (map (\<lambda>j. (j, pointDist (points ! i) (points ! j)))
          (filter (\<lambda>j. j \<noteq> i) [0..<length points]))"

text \<open>
  The key of the seen-set is the string \<open>`${i}-${j}`\<close> with the smaller index first; two
  keys are equal exactly when the pairs are, so the pair stands for the string.
  \<^verbatim>\<open>const edgeKey = i < j ? `${i}-${j}` : `${j}-${i}`;
  if (!edgeSet.has(edgeKey)) { edgeSet.add(edgeKey); edges.push([i, j]); }\<close>
\<close>

definition edgeKey :: "nat \<Rightarrow> nat \<Rightarrow> nat \<times> nat" where
  "edgeKey i j = (if i < j then (i, j) else (j, i))"

definition addEdge ::
  "nat \<Rightarrow> (nat \<times> nat) list \<times> (nat \<times> nat) set \<Rightarrow> nat \<Rightarrow> (nat \<times> nat) list \<times> (nat \<times> nat) set" where
  "addEdge i st j =
     (case st of (edges, edgeSet) \<Rightarrow>
        if edgeKey i j \<in> edgeSet then (edges, edgeSet)
        else (edges @ [(i, j)], insert (edgeKey i j) edgeSet))"

definition neighboursOf :: "VisualizationPoint list \<Rightarrow> nat \<Rightarrow> nat \<Rightarrow> nat list" where
  "neighboursOf points k i =
     (let distances = sortedDistances points i
      in map fst (take (min k (length distances)) distances))"

definition findKNearestNeighbors :: "VisualizationPoint list \<Rightarrow> nat \<Rightarrow> (nat \<times> nat) list" where
  "findKNearestNeighbors points k =
     fst (foldl (\<lambda>st i. foldl (addEdge i) st (neighboursOf points k i))
            ([], {}) [0..<length points])"

section \<open>The server pipeline\<close>

record Verse =
  verse_id :: nat
  verse_name :: string
  verse_start :: real
  verse_end :: real
  verse_points :: "VisualizationPoint list"
  verse_edges :: "(nat \<times> nat) list"

record AnalysisResult =
  res_duration :: real
  res_sampleRate :: real
  res_verses :: "Verse list"

text \<open>The decimal digits of an index, for the phrase name \<open>`Phrase ${verseIndex + 1}`\<close>.\<close>

fun showNat :: "nat \<Rightarrow> string" where
  "showNat n =
     (if n < 10 then [char_of (48 + n)]
      else showNat (n div 10) @ [char_of (48 + n mod 10)])"

declare showNat.simps [simp del]

definition pickDominantBand :: "AudioFrame \<Rightarrow> Band \<times> real" where
  "pickDominantBand frame =
     (if bandMid frame \<ge> bandLow frame \<and> bandMid frame \<ge> bandHigh frame
        then (Mid, AudioFrame.onsetMid frame)
      else if bandLow frame \<ge> bandMid frame \<and> bandLow frame \<ge> bandHigh frame
        then (Low, AudioFrame.onsetLow frame)
      else (High, AudioFrame.onsetHigh frame))"

text \<open>The observed ranges over all frames of all phrases.\<close>

record Ranges =
  pitchMin :: real
  pitchMax :: real
  centroidMin :: real
  centroidMax :: real
  bandwidthMin :: real
  bandwidthMax :: real
  amplitudeMax :: real

definition observedRanges :: "AudioFrame list \<Rightarrow> Ranges" where
  "observedRanges allFrames =
     (let pitchValues = map (\<lambda>f. log 2 (max 1 (pitch f))) allFrames
      in \<lparr> pitchMin = minOf pitchValues, pitchMax = maxOf pitchValues,
           centroidMin = minOf (map AudioFrame.centroid allFrames),
           centroidMax = maxOf (map AudioFrame.centroid allFrames),
           bandwidthMin = minOf (map AudioFrame.bandwidth allFrames),
           bandwidthMax = maxOf (map AudioFrame.bandwidth allFrames),
           amplitudeMax = maxOf (map amplitude allFrames) \<rparr>)"

definition framePoint :: "Ranges \<Rightarrow> real \<Rightarrow> real \<Rightarrow> AudioFrame \<Rightarrow> VisualizationPoint" where
  "framePoint r segStart verseDuration frame =
     (let normalizedTime = (if verseDuration > 0 then (t frame - segStart) / verseDuration else 0);
          normalizedPitch = normalizeValue (log 2 (max 1 (pitch frame))) (pitchMin r) (pitchMax r);
          normalizedCentroid =
            normalizeValue (AudioFrame.centroid frame) (centroidMin r) (centroidMax r);
          normalizedBandwidth =
            normalizeValue (AudioFrame.bandwidth frame) (bandwidthMin r) (bandwidthMax r);
          normalizedAmplitude =
            (if amplitudeMax r > 0 then amplitude frame / amplitudeMax r else 0);
          hue = normalizedCentroid;
          saturation = 0.7 + normalizedBandwidth * 0.3;
          lightness = 0.4 + normalizedAmplitude * 0.4;
          cplx = (1 - spectralFlatness frame) * normalizedBandwidth;
          bnd = fst (pickDominantBand frame);
          offsetZ = (case bnd of Low \<Rightarrow> - 0.8 | Mid \<Rightarrow> 0 | High \<Rightarrow> 0.8)
      in \<lparr> x = normalizedTime, y = normalizedPitch, z = normalizedCentroid,
           size = 0.3 + normalizedAmplitude * 0.7, color = (hue, saturation, lightness),
           time = t frame, beatStrength = AudioFrame.beatStrength frame, complexity = cplx,
           band = bnd, bandOffsetZ = offsetZ, onsetLow = AudioFrame.onsetLow frame,
           onsetMid = AudioFrame.onsetMid frame, onsetHigh = AudioFrame.onsetHigh frame \<rparr>)"

text \<open>\<open>xs.filter((_, i) => i % step === 0)\<close>\<close>

definition everyNth :: "nat \<Rightarrow> 'a list \<Rightarrow> 'a list" where
  "everyNth step xs = map snd (filter (\<lambda>(i, v). i mod step = 0) (zip [0..<length xs] xs))"

definition mapFramesToVisualization ::
  "AudioFrame VerseSegment list \<Rightarrow> real \<Rightarrow> Verse list" where
  "mapFramesToVisualization verseSegments duration =
     (let allFrames = concat (map vframes verseSegments)
      in if allFrames = [] then []
         else (let r = observedRanges allFrames
               in map (\<lambda>(verseIndex, segment).
                    (let verseDuration = vend segment - vstart segment;
                         maxPoints = 400;
                         step = max 1 (length (vframes segment) div maxPoints);
                         sampledFrames = everyNth step (vframes segment);
                         pts = map (framePoint r (vstart segment) verseDuration) sampledFrames;
                         es = (if length pts > 1 then findKNearestNeighbors pts 3 else [])
                     in \<lparr> verse_id = verseIndex,
                          verse_name = ''Phrase '' @ showNat (verseIndex + 1),
                          verse_start = vstart segment, verse_end = vend segment,
                          verse_points = pts, verse_edges = es \<rparr>))
                  (zip [0..<length verseSegments] verseSegments)))"

text \<open>
  \<open>analyzeAudioFile\<close> from the decoded samples on. Before this point the source checks
  the file extension, transcodes to WAV and parses the header, each of which can throw
  an error of its own. A \<open>RangeError\<close> of \<open>extractAudioFrames\<close> leaves the function
  as it is thrown. The lists that \<open>segmentIntoVerses\<close> and \<open>mapFramesToVisualization\<close>
  spread into \<open>Math.max\<close> and \<open>Math.min\<close> afterwards are no longer than the list of
  frames, which \<open>extractAudioFrames\<close> has spread by then whenever it has two frames or
  more, so these calls are the total \<open>maxOf\<close> and \<open>minOf\<close>.
\<close>

definition analyzeAudioFile ::
  "nat \<Rightarrow> (nat \<Rightarrow> real \<Rightarrow> 'm option \<Rightarrow> AudioFrame \<times> 'm) \<Rightarrow> real list \<Rightarrow> real \<Rightarrow>
   AnalysisError + AnalysisResult" where
  "analyzeAudioFile argLimit an samples sampleRate =
     (if length samples = 0
      then Inl (Error ''Could not extract audio samples from the file.'')
      else (let duration = real (length samples) / sampleRate
            in case extractAudioFrames argLimit an samples sampleRate of
                 Inl e \<Rightarrow> Inl e
               | Inr frames \<Rightarrow>
                   (let verseSegments = segmentIntoVerses frames duration;
                        verses = mapFramesToVisualization verseSegments duration
                    in Inr \<lparr> res_duration = duration, res_sampleRate = sampleRate,
                             res_verses = verses \<rparr>)))"

section \<open>Chroma\<close>

text \<open>
  \<open>Math.round\<close> rounds a half towards plus infinity; \<open>%\<close> on integers takes the sign of
  the dividend.
\<close>

definition jsRound :: "real \<Rightarrow> int" where
  "jsRound v = \<lfloor>v + 1 / 2\<rfloor>"

definition jsRem :: "int \<Rightarrow> int \<Rightarrow> int" where
  "jsRem a b = sgn a * (\<bar>a\<bar> mod \<bar>b\<bar>)"

text \<open>
  The frequency of bin \<open>k\<close> is \<open>k * sampleRate / fftSize\<close>; the bin is used when that lies
  in \<open>[30, 5000]\<close>. With \<open>fftSize = 0\<close> the quotient is an infinity or NaN, and such a
  bin changes no chroma class.
\<close>

definition binFreq :: "nat \<Rightarrow> real \<Rightarrow> real \<Rightarrow> real" where
  "binFreq k sampleRate fftSize = real k * sampleRate / fftSize"

definition binInRange :: "nat \<Rightarrow> real \<Rightarrow> real \<Rightarrow> bool" where
  "binInRange k sampleRate fftSize \<longleftrightarrow>
     fftSize \<noteq> 0 \<and> \<not> (binFreq k sampleRate fftSize < 30 \<or> binFreq k sampleRate fftSize > 5000)"

text \<open>
  \<^verbatim>\<open>const semitone = 12 * Math.log2(freq / refFreq);
  const pitchClass = ((Math.round(semitone) % 12) + 12) % 12;\<close>
\<close>

definition pitchClass :: "real \<Rightarrow> nat" where
  "pitchClass freq =
     (let semitone = 12 * log 2 (freq / 440)
      in nat (jsRem (jsRem (jsRound semitone) 12 + 12) 12))"

text \<open>The loop over the bins \<open>k = 1, ..., magnitude.length - 1\<close>.\<close>

fun chromaLoop :: "real list \<Rightarrow> real \<Rightarrow> real \<Rightarrow> nat list \<Rightarrow> real list \<Rightarrow> real list" where
  "chromaLoop magnitude fftSize sampleRate [] chr = chr"
| "chromaLoop magnitude fftSize sampleRate (k # ks) chr =
     (if binInRange k sampleRate fftSize then
        (let pc = pitchClass (binFreq k sampleRate fftSize)
         in chromaLoop magnitude fftSize sampleRate ks
              (chr[pc := chr ! pc + magnitude ! k * magnitude ! k]))
      else chromaLoop magnitude fftSize sampleRate ks chr)"

text \<open>
  \<^verbatim>\<open>let sum = 0;
  for (let i = 0; i < 12; i++) sum += chroma[i];
  if (sum > 0) { for (let i = 0; i < 12; i++) chroma[i] /= sum; }\<close>
\<close>

definition computeChroma :: "real list \<Rightarrow> real \<Rightarrow> real \<Rightarrow> real list" where
  "computeChroma magnitude fftSize sampleRate =
     (let chr = chromaLoop magnitude fftSize sampleRate [1..<length magnitude]
                  (replicate 12 0);
          s = sum_list chr
      in if s > 0 then map (\<lambda>c. c / s) chr else chr)"

text \<open>
  The energy the loop accumulates: the squared magnitudes of the scanned bins whose
  frequency is in range. It is the value of \<open>sum\<close> before the normalisation.
\<close>

definition inRangeEnergy :: "real list \<Rightarrow> real \<Rightarrow> real \<Rightarrow> real" where
  "inRangeEnergy magnitude fftSize sampleRate =
     (\<Sum>k\<leftarrow>[1..<length magnitude].
        if binInRange k sampleRate fftSize then magnitude ! k * magnitude ! k else 0)"

section \<open>Pitch detection (YIN)\<close>

text \<open>Step 1, the difference function: \<open>diff[tau]\<close> for \<open>tau < halfW\<close>.\<close>

definition yinDiff :: "real list \<Rightarrow> nat \<Rightarrow> nat \<Rightarrow> nat \<Rightarrow> real" where
  "yinDiff samples start halfW tau =
     sum_list (map (\<lambda>j. (samples ! (start + j) - samples ! (start + j + tau)) *
                         (samples ! (start + j) - samples ! (start + j + tau)))
                 [0..<halfW])"

text \<open>
  Step 2, the cumulative mean normalised difference: \<open>cmndf[0] = 1\<close>, and for
  \<open>tau = 1, ..., halfW - 1\<close>
  \<^verbatim>\<open>runningSum += diff[tau];
  cmndf[tau] = runningSum > 0 ? (diff[tau] * tau / runningSum) : 1;\<close>
\<close>

fun cmndfLoop :: "(nat \<Rightarrow> real) \<Rightarrow> nat list \<Rightarrow> real \<Rightarrow> real list" where
  "cmndfLoop diff [] runningSum = []"
| "cmndfLoop diff (tau # taus) runningSum =
     (let r = runningSum + diff tau
      in (if r > 0 then diff tau * real tau / r else 1) # cmndfLoop diff taus r)"

definition yinCmndf :: "real list \<Rightarrow> nat \<Rightarrow> nat \<Rightarrow> real list" where
  "yinCmndf samples start halfW =
     (if halfW = 0 then []
      else 1 # cmndfLoop (yinDiff samples start halfW) [1..<halfW] 0)"

text \<open>
  Step 3. The inner \<open>while\<close> walks from a crossing to the local minimum:
  \<^verbatim>\<open>while (tau + 1 < halfW && cmndf[tau + 1] < cmndf[tau]) tau++;\<close>
\<close>

function localMin :: "real list \<Rightarrow> nat \<Rightarrow> nat" where
  "localMin cmndf tau =
     (if tau + 1 < length cmndf \<and> cmndf ! (tau + 1) < cmndf ! tau
      then localMin cmndf (tau + 1) else tau)"
  by pat_completeness auto
termination
  by (relation "measure (\<lambda>(cmndf, tau). length cmndf - tau)") auto

declare localMin.simps [simp del]

text \<open>
  The first loop: the first \<open>tau\<close> of the scanned range whose value is below the
  threshold, moved to its local minimum. \<open>None\<close> is \<open>bestTau = -1\<close>.
\<close>

fun firstCrossing :: "real list \<Rightarrow> real \<Rightarrow> nat list \<Rightarrow> (nat \<times> real) option" where
  "firstCrossing cmndf threshold [] = None"
| "firstCrossing cmndf threshold (tau # taus) =
     (if cmndf ! tau < threshold
      then (let tau' = localMin cmndf tau in Some (tau', cmndf ! tau'))
      else firstCrossing cmndf threshold taus)"

text \<open>
  The second loop, run when there was no crossing: the first global minimum below the
  initial \<open>bestVal = 1\<close>.
\<close>

fun globalMin :: "real list \<Rightarrow> nat list \<Rightarrow> (nat \<times> real) option \<Rightarrow> real \<Rightarrow> (nat \<times> real) option" where
  "globalMin cmndf [] best bestVal = best"
| "globalMin cmndf (tau # taus) best bestVal =
     (if cmndf ! tau < bestVal
      then globalMin cmndf taus (Some (tau, cmndf ! tau)) (cmndf ! tau)
      else globalMin cmndf taus best bestVal)"

text \<open>
  The scanned range is \<open>Math.max(2, minPeriod) \<le> tau < Math.min(halfW, maxPeriod)\<close> with
  \<open>minPeriod = floor(sampleRate / 2000)\<close> and \<open>maxPeriod = floor(sampleRate / 50)\<close>.
\<close>

definition yinRange :: "nat \<Rightarrow> real \<Rightarrow> nat list" where
  "yinRange halfW sampleRate =
     (let minPeriod = \<lfloor>sampleRate / 2000\<rfloor>; maxPeriod = \<lfloor>sampleRate / 50\<rfloor>
      in [nat (max 2 minPeriod)..<nat (min (int halfW) maxPeriod)])"

definition yinBest :: "real list \<Rightarrow> nat \<Rightarrow> real \<Rightarrow> real \<Rightarrow> (nat \<times> real) option" where
  "yinBest cmndf halfW sampleRate threshold =
     (case firstCrossing cmndf threshold (yinRange halfW sampleRate) of
        Some b \<Rightarrow> Some b
      | None \<Rightarrow> globalMin cmndf (yinRange halfW sampleRate) None 1)"

text \<open>
  Step 4, parabolic interpolation. A zero denominator gives an infinite or NaN shift,
  which fails the test \<open>Math.abs(shift) < 1\<close>.
\<close>

definition yinRefine :: "real list \<Rightarrow> nat \<Rightarrow> nat \<Rightarrow> real" where
  "yinRefine cmndf halfW bestTau =
     (if bestTau > 0 \<and> int bestTau < int halfW - 1 then
        (let a = cmndf ! (bestTau - 1); b = cmndf ! bestTau; c = cmndf ! (bestTau + 1);
             d = 2 * (a - 2 * b + c)
         in if d \<noteq> 0 \<and> \<bar>(a - c) / d\<bar> < 1 then real bestTau + (a - c) / d
            else real bestTau)
      else real bestTau)"

text \<open>
  \<open>yinPitchDetect\<close> returns \<open>{ f0, confidence }\<close>, here a pair. A frame that does not
  fit into the buffer, and a best lag below 2, give \<open>{ f0: null, confidence: 0 }\<close>.
  (\<open>frameLen\<close> is the parameter \<open>frameSize\<close> of the source, \<open>pitchHz\<close> its local \<open>f0\<close>:
  both names are fields of records here.)
\<close>

definition yinPitchDetect ::
  "real list \<Rightarrow> nat \<Rightarrow> nat \<Rightarrow> real \<Rightarrow> real \<Rightarrow> real option \<times> real" where
  "yinPitchDetect samples start frameLen sampleRate threshold =
     (let halfW = frameLen div 2;
          end' = min (start + frameLen) (length samples);
          available = int end' - int start
      in if available < int frameLen then (None, 0)
         else (let cmndf = yinCmndf samples start halfW
               in case yinBest cmndf halfW sampleRate threshold of
                    None \<Rightarrow> (None, 0)
                  | Some (bestTau, bestVal) \<Rightarrow>
                      if bestTau < 2 then (None, 0)
                      else (let refinedTau = yinRefine cmndf halfW bestTau;
                                pitchHz = sampleRate / refinedTau;
                                conf = 1 - bestVal
                            in if pitchHz < 50 \<or> pitchHz > 2000 \<or> conf < 0.3
                               then (None, 0)
                               else (Some pitchHz, max 0 (min 1 conf)))))"

section \<open>Server: PCA of the MFCC vectors\<close>

text \<open>
  The frame of the MFCC variant of the server (\<open>AudioFrame\<close> there as well; its fields
  \<open>t\<close> and \<open>amplitude\<close> are \<open>frameT\<close> and \<open>frameAmplitude\<close> here). Optional fields are
  options, \<open>pcaCoordinates\<close> is the object \<open>{ x, y, z }\<close>.
\<close>

record MfccFrame =
  frameT :: real
  mfccs :: "real list"
  pcaCoordinates :: "(real \<times> real \<times> real) option"
  frequency :: "real option"
  frameAmplitude :: "real option"

text \<open>\<open>frame.mfccs[i] ?? 0\<close>\<close>

definition nthOrZero :: "real list \<Rightarrow> nat \<Rightarrow> real" where
  "nthOrZero m i = (if i < length m then m ! i else 0)"

definition fallbackPcaCoordinates :: "MfccFrame list \<Rightarrow> MfccFrame list" where
  "fallbackPcaCoordinates frames =
     map (\<lambda>frame. frame\<lparr> pcaCoordinates :=
            Some (nthOrZero (mfccs frame) 0 * 0.1,
                  nthOrZero (mfccs frame) 1 * 0.1,
                  nthOrZero (mfccs frame) 2 * 0.1) \<rparr>) frames"

definition PCA_MFCC_DIM :: nat where
  "PCA_MFCC_DIM = 40"

definition PCA_SAMPLE_LIMIT :: nat where
  "PCA_SAMPLE_LIMIT = 2000"

text \<open>\<open>for (let i = 0; i < frames.length; i += sampleStep) sampledIndices.push(i);\<close>\<close>

definition sampledIndices :: "nat \<Rightarrow> nat \<Rightarrow> nat list" where
  "sampledIndices n sampleStep =
     map (\<lambda>j. j * sampleStep) [0..<(n + sampleStep - 1) div sampleStep]"

text \<open>A row of the sampled matrix: the MFCC vector cut or zero-padded to 40 columns.\<close>

definition sampledRow :: "real list \<Rightarrow> real list" where
  "sampledRow m =
     (if length m = PCA_MFCC_DIM then m
      else if length m > PCA_MFCC_DIM then take PCA_MFCC_DIM m
      else m @ replicate (PCA_MFCC_DIM - length m) 0)"

text \<open>
  The matrix operations of the library by their meaning: the column means, the centred
  matrix, and \<open>transposed.mmul(sampledMatrix).div(rows - 1)\<close>.
\<close>

definition columnMeans :: "real list list \<Rightarrow> real list" where
  "columnMeans rows =
     map (\<lambda>c. (\<Sum>row\<leftarrow>rows. row ! c) / real (length rows)) [0..<PCA_MFCC_DIM]"

definition centreRows :: "real list list \<Rightarrow> real list \<Rightarrow> real list list" where
  "centreRows rows means = map (\<lambda>row. map (\<lambda>c. row ! c - means ! c) [0..<PCA_MFCC_DIM]) rows"

definition covarianceOf :: "real list list \<Rightarrow> real list list" where
  "covarianceOf rows =
     map (\<lambda>i. map (\<lambda>j. (\<Sum>row\<leftarrow>rows. row ! i * row ! j) / (real (length rows) - 1))
                  [0..<PCA_MFCC_DIM])
       [0..<PCA_MFCC_DIM]"

definition pcaSample :: "MfccFrame list \<Rightarrow> real list list" where
  "pcaSample frames =
     (let sampleStep = (if length frames > PCA_SAMPLE_LIMIT
                        then length frames div PCA_SAMPLE_LIMIT else 1)
      in map (\<lambda>idx. sampledRow (mfccs (frames ! idx)))
           (sampledIndices (length frames) sampleStep))"

definition pcaCovariance :: "MfccFrame list \<Rightarrow> real list list" where
  "pcaCovariance frames =
     (let sampled = pcaSample frames
      in covarianceOf (centreRows sampled (columnMeans sampled)))"

text \<open>
  What \<open>new EigenvalueDecomposition(covariance, { assumeSymmetric: true })\<close> gives: the
  eigenvector matrix with its dimensions, and the real eigenvalues. The decomposition is
  code of a library; it is a parameter \<open>evd\<close> of the model, and \<open>None\<close> stands for a
  decomposition that throws.
\<close>

record Evd =
  eigenvectorMatrix :: "real list list"
  evRows :: nat
  evColumns :: nat
  realEigenvalues :: "real list"

text \<open>
  The column indices by descending eigenvalue:
  \<^verbatim>\<open>eigenvalues.map((val, idx) => ({ val, idx })).sort((a, b) => b.val - a.val)\<close>
\<close>

definition sortedColumns :: "real list \<Rightarrow> nat list" where
  "sortedColumns eigenvalues =
     map snd (sort_key (\<lambda>(val, idx). - val) (zip eigenvalues [0..<length eigenvalues]))"

text \<open>The projection of one frame on a principal component.\<close>

definition projectOn :: "real list \<Rightarrow> real list \<Rightarrow> real list list \<Rightarrow> nat \<Rightarrow> real" where
  "projectOn m means eigenvectors col =
     (\<Sum>d\<leftarrow>[0..<PCA_MFCC_DIM]. (nthOrZero m d - means ! d) * (eigenvectors ! d ! col))"

definition projectFrames ::
  "MfccFrame list \<Rightarrow> real list \<Rightarrow> Evd \<Rightarrow> MfccFrame list" where
  "projectFrames frames means e =
     (let sorted = sortedColumns (realEigenvalues e);
          col0 = sorted ! 0; col1 = sorted ! 1; col2 = sorted ! 2;
          coords = map (\<lambda>frame.
                     (projectOn (mfccs frame) means (eigenvectorMatrix e) col0,
                      projectOn (mfccs frame) means (eigenvectorMatrix e) col1,
                      projectOn (mfccs frame) means (eigenvectorMatrix e) col2)) frames;
          maxAbs = foldl (\<lambda>mx (cx, cy, cz). max (max (max mx \<bar>cx\<bar>) \<bar>cy\<bar>) \<bar>cz\<bar>) 0 coords;
          scale = (if maxAbs > 0 then 5 / maxAbs else 1)
      in map (\<lambda>(frame, (cx, cy, cz)).
                frame\<lparr> pcaCoordinates := Some (cx * scale, cy * scale, cz * scale) \<rparr>)
           (zip frames coords))"

text \<open>
  \<open>applyPCA\<close>. Everything after the two length tests runs inside \<open>try\<close>, and the
  \<open>catch\<close> returns the fallback: so does a decomposition that throws, and so does the
  read of \<open>sorted[2].idx\<close> when there are fewer than three eigenvalues.
\<close>

definition applyPCA ::
  "(real list list \<Rightarrow> Evd option) \<Rightarrow> MfccFrame list \<Rightarrow> MfccFrame list" where
  "applyPCA evd frames =
     (if length frames = 0 then frames
      else if length frames < 2 then fallbackPcaCoordinates frames
      else (let sampled = pcaSample frames;
                means = columnMeans sampled;
                covariance = covarianceOf (centreRows sampled means)
            in case evd covariance of
                 None \<Rightarrow> fallbackPcaCoordinates frames
               | Some e \<Rightarrow>
                   if evRows e \<noteq> PCA_MFCC_DIM \<or> evColumns e \<noteq> PCA_MFCC_DIM
                   then fallbackPcaCoordinates frames
                   else if length (realEigenvalues e) < 3
                   then fallbackPcaCoordinates frames
                   else projectFrames frames means e))"

section \<open>Client: PCA by power iteration\<close>

record PCAResult =
  positions :: "real list list"
  eigenvalues :: "real list"
  mean :: "real list"
  components :: "real list list"

text \<open>
  \<open>buildFeatureVector\<close>: MFCCs, chroma, scaled pitch weighted by confidence, centroid,
  loudness, bandwidth and the chroma concentration \<open>Math.max(...frame.chroma)\<close>. The test
  \<open>frame.f0 ?\<close> is false for \<open>null\<close> and for 0.
\<close>

definition buildFeatureVector :: "FrameFeatures \<Rightarrow> real list" where
  "buildFeatureVector frame =
     (let logF0 = (case f0 frame of
                     None \<Rightarrow> 0
                   | Some v \<Rightarrow> if v = 0 then 0 else log 2 (max 1 v) / 11);
          chromaConc = maxOf (chroma frame)
      in mfcc frame @ chroma frame @
         [logF0 * f0Conf frame, FrameFeatures.centroid frame / 8000, loudness frame,
          FrameFeatures.bandwidth frame / 4000, chromaConc])"

text \<open>The mean and the standard deviation of each of the \<open>D\<close> columns; a deviation
  below \<open>1e-10\<close> is replaced by 1.\<close>

definition computeMean :: "real list list \<Rightarrow> real list" where
  "computeMean rows =
     map (\<lambda>d. (\<Sum>row\<leftarrow>rows. row ! d) / real (length rows)) [0..<length (rows ! 0)]"

definition computeStd :: "real list list \<Rightarrow> real list \<Rightarrow> real list" where
  "computeStd rows mu =
     map (\<lambda>d. (let sd = sqrt ((\<Sum>row\<leftarrow>rows. (row ! d - mu ! d) * (row ! d - mu ! d))
                              / real (length rows))
               in if sd < 1 / 10 ^ 10 then 1 else sd))
       [0..<length (rows ! 0)]"

definition standardize :: "real list list \<Rightarrow> real list \<Rightarrow> real list \<Rightarrow> real list list" where
  "standardize rows mu sd =
     map (\<lambda>row. map (\<lambda>d. (row ! d - mu ! d) / sd ! d) [0..<length (rows ! 0)]) rows"

text \<open>
  The covariance matrix \<open>(1/N) X\<^sup>T X\<close>: the upper triangle is computed and mirrored.
\<close>

definition computeCovarianceMatrix :: "real list list \<Rightarrow> real list list" where
  "computeCovarianceMatrix rows =
     (let D = length (rows ! 0);
          upper = (\<lambda>i j. (\<Sum>row\<leftarrow>rows. row ! i * row ! j) / real (length rows))
      in map (\<lambda>i. map (\<lambda>j. if i \<le> j then upper i j else upper j i) [0..<D]) [0..<D])"

text \<open>
  \<open>powerIteration\<close>: the start vector \<open>v[i] = (i % 2 === 0 ? 1 : -1) * (1 + (i % 7) * 0.1)\<close>,
  normalised, then at most 200 rounds of \<open>w = M v\<close>, \<open>v = w / |w|\<close>, left early when
  \<open>|w| < 1e-10\<close>.
\<close>

definition initVector :: "nat \<Rightarrow> real list" where
  "initVector D =
     (let v = map (\<lambda>i. (if i mod 2 = 0 then 1 else - 1) * (1 + real (i mod 7) * 0.1)) [0..<D];
          initNorm = sqrt (\<Sum>c\<leftarrow>v. c * c)
      in if initNorm > 0 then map (\<lambda>c. c / initNorm) v else v)"

definition matVec :: "real list list \<Rightarrow> real list \<Rightarrow> real list" where
  "matVec matrix v =
     map (\<lambda>i. \<Sum>j\<leftarrow>[0..<length matrix]. matrix ! i ! j * v ! j) [0..<length matrix]"

fun powerLoop :: "real list list \<Rightarrow> nat \<Rightarrow> real list \<Rightarrow> real \<Rightarrow> real \<times> real list" where
  "powerLoop matrix 0 v eigenvalue = (eigenvalue, v)"
| "powerLoop matrix (Suc n) v eigenvalue =
     (let w = matVec matrix v;
          nrm = sqrt (\<Sum>c\<leftarrow>w. c * c)
      in if nrm < 1 / 10 ^ 10 then (eigenvalue, v)
         else powerLoop matrix n (map (\<lambda>c. c / nrm) w) nrm)"

definition powerIteration :: "real list list \<Rightarrow> real \<times> real list" where
  "powerIteration matrix = powerLoop matrix 200 (initVector (length matrix)) 0"

definition deflateMatrix :: "real list list \<Rightarrow> real \<Rightarrow> real list \<Rightarrow> real list list" where
  "deflateMatrix matrix eigenvalue eigenvector =
     map (\<lambda>i. map (\<lambda>j. matrix ! i ! j - eigenvalue * eigenvector ! i * eigenvector ! j)
                  [0..<length matrix])
       [0..<length matrix]"

text \<open>The three rounds of power iteration and deflation:
  the eigenvalues and the components found.\<close>

fun extractComponents :: "nat \<Rightarrow> real list list \<Rightarrow> (real \<times> real list) list" where
  "extractComponents 0 currentCov = []"
| "extractComponents (Suc k) currentCov =
     (let (eigenvalue, eigenvector) = powerIteration currentCov
      in (eigenvalue, eigenvector)
         # extractComponents k (deflateMatrix currentCov eigenvalue eigenvector))"

text \<open>The standardised data of the frames, and its covariance.\<close>

definition pcaData :: "FrameFeatures list \<Rightarrow> real list list" where
  "pcaData frames =
     (let rawData = map buildFeatureVector frames;
          mu = computeMean rawData;
          sd = computeStd rawData mu
      in standardize rawData mu sd)"

text \<open>
  The projection of every frame on the three components, before the rescaling:
  \<open>pos[k] = sum over d < D of data[i][d] * components[k][d]\<close>.
\<close>

definition projectData :: "real list list \<Rightarrow> real list list \<Rightarrow> real list list" where
  "projectData rows comps =
     map (\<lambda>row. map (\<lambda>k. \<Sum>d\<leftarrow>[0..<length (rows ! 0)]. row ! d * comps ! k ! d) [0..<3]) rows"

definition pcaProjection :: "FrameFeatures list \<Rightarrow> real list list" where
  "pcaProjection frames =
     (let rows = pcaData frames;
          found = extractComponents 3 (computeCovarianceMatrix rows)
      in projectData rows (map snd found))"

text \<open>
  The rescaling of the axes. \<open>ranges[k]\<close> is the minimum and the maximum of axis \<open>k\<close>
  over all positions, which the source finds with a scan from
  \<open>[Infinity, -Infinity]\<close>; then
  \<^verbatim>\<open>const range = ranges[k][1] - ranges[k][0];
  if (range > 0) pos[k] = ((pos[k] - ranges[k][0]) / range - 0.5) * 2 * scale;\<close>
  with \<open>scale = 5\<close>.
\<close>

definition axisMin :: "real list list \<Rightarrow> nat \<Rightarrow> real" where
  "axisMin ps k = minOf (map (\<lambda>pos. pos ! k) ps)"

definition axisMax :: "real list list \<Rightarrow> nat \<Rightarrow> real" where
  "axisMax ps k = maxOf (map (\<lambda>pos. pos ! k) ps)"

definition rescalePositions :: "real list list \<Rightarrow> real list list" where
  "rescalePositions ps =
     map (\<lambda>pos. map (\<lambda>k. (let range = axisMax ps k - axisMin ps k
                            in if range > 0
                               then ((pos ! k - axisMin ps k) / range - 0.5) * 2 * 5
                               else pos ! k))
                    [0..<3])
       ps"

definition computePCA :: "FrameFeatures list \<Rightarrow> PCAResult" where
  "computePCA frames =
     (if length frames = 0
      then \<lparr> positions = [], eigenvalues = [], mean = [], components = [] \<rparr>
      else (let rawData = map buildFeatureVector frames;
                found = extractComponents 3 (computeCovarianceMatrix (pcaData frames))
            in \<lparr> positions = rescalePositions (pcaProjection frames),
                 eigenvalues = map fst found,
                 mean = computeMean rawData,
                 components = map snd found \<rparr>))"

section \<open>Invariants and example inputs\<close>

text \<open>
  The invariant of the two loops of \<open>findKNearestNeighbors\<close> over \<open>n\<close> points: the
  seen-set holds exactly the keys of the edges pushed so far, no key was pushed twice,
  and every edge joins two different indices below \<open>n\<close>.
\<close>

definition edgesInv :: "nat \<Rightarrow> (nat \<times> nat) list \<times> (nat \<times> nat) set \<Rightarrow> bool" where
  "edgesInv n st =
     (case st of (es, S) \<Rightarrow>
        S = (\<lambda>(a, b). edgeKey a b) ` set es \<and>
        distinct (map (\<lambda>(a, b). edgeKey a b) es) \<and>
        (\<forall>(a, b)\<in>set es. a \<noteq> b \<and> a < n \<and> b < n))"

text \<open>
  A frame at time \<open>tm\<close> with amplitude \<open>a\<close>; the other fields are what the server's
  extractors give for a flat spectrum.
\<close>

definition frameAt :: "real \<Rightarrow> real \<Rightarrow> AudioFrame" where
  "frameAt tm a =
     \<lparr> t = tm, pitch = 80, centroid = 1000, bandwidth = 500, amplitude = a,
       onsetStrength = 0, spectralFlux = 0, spectralFlatness = 1, beatStrength = 0,
       bandLow = 0, bandMid = 0, bandHigh = 0, onsetLow = 0, onsetMid = 0, onsetHigh = 0 \<rparr>"

text \<open>An analyser that reports the same quiet frame for every window.\<close>

definition quietAnalyser :: "nat \<Rightarrow> real \<Rightarrow> unit option \<Rightarrow> AudioFrame \<times> unit" where
  "quietAnalyser start prevRMS prevFFT = (frameAt 0 0, ())"

text \<open>A point on the x axis.\<close>

definition pointAt :: "real \<Rightarrow> VisualizationPoint" where
  "pointAt a =
     \<lparr> x = a, y = 0, z = 0, size = 1, color = (0, 0, 0), time = 0, beatStrength = 0,
       complexity = 0, band = Mid, bandOffsetZ = 0, onsetLow = 0, onsetMid = 0,
       onsetHigh = 0 \<rparr>"

text \<open>
  A frame of the client without MFCCs, with one chroma class and loudness \<open>l\<close>; and the
  covariance matrix of the standardised features of two such frames that differ in
  loudness only.
\<close>

definition quietFrame :: "real \<Rightarrow> FrameFeatures" where
  "quietFrame l = \<lparr> FrameFeatures.time = 0, mfcc = [], chroma = [0], f0 = None, f0Conf = 0,
      loudness = l, centroid = 0, bandwidth = 0, flatness = 0, flux = 0 \<rparr>"


text \<open>An extractor of the client that reports the same quiet frame for every window.\<close>

definition quietExtractor :: "int \<Rightarrow> unit option \<Rightarrow> FrameFeatures \<times> unit" where
  "quietExtractor start prevMag = (quietFrame 0, ())"

definition unitCov :: "real list list" where
  "unitCov = [[0, 0, 0, 0, 0, 0], [0, 0, 0, 0, 0, 0], [0, 0, 0, 0, 0, 0],
              [0, 0, 0, 1, 0, 0], [0, 0, 0, 0, 0, 0], [0, 0, 0, 0, 0, 0]]"


section \<open>Properties\<close>

subsection \<open>Range normalisation\<close>

text \<open>
  Claim C9. For all real \<open>value\<close>, \<open>min\<close> and \<open>max\<close>, both range-normalisation helpers
  return a result in \<open>[0, 1]\<close>, and both return exactly 0.5 when the range has zero
  width (\<open>max = min\<close>).
\<close>

theorem normalize_clamped_midpoint:
  "0 \<le> normalizeValue v mn mx \<and> normalizeValue v mn mx \<le> 1 \<and>
   normalizeValue v m m = 1 / 2 \<and>
   0 \<le> norm_range v mn mx \<and> norm_range v mn mx \<le> 1 \<and>
   norm_range v m m = 1 / 2"
  by (simp add: normalizeValue_def norm_range_def)

subsection \<open>Frame count and frame times\<close>

text \<open>The loop of the client never returns on an infinite bound, whatever the fuel.\<close>

lemma featureLoop_PosInf: "featureLoop an hop sr PosInf fuel i prev acc = None"
  by (induction fuel arbitrary: i prev acc) (auto split: prod.splits)

lemma featureLoop_Fin:
  "nat (k - int i) \<le> fuel \<Longrightarrow>
   \<exists>fs. featureLoop an hop sr (Fin k) fuel i prev acc = Some (acc @ fs) \<and>
        length fs = nat (k - int i) \<and>
        (\<forall>j<length fs. FrameFeatures.time (fs ! j) = real_of_int (int (i + j) * hop) / sr)"
proof (induction fuel arbitrary: i prev acc)
  case 0
  then show ?case by simp
next
  case (Suc fuel)
  show ?case
  proof (cases "int i < k")
    case False
    then show ?thesis by simp
  next
    case True
    obtain fr mag where an: "an (int i * hop) prev = (fr, mag)" by (cases "an (int i * hop) prev")
    define fr' where "fr' = fr\<lparr>FrameFeatures.time := real_of_int (int i * hop) / sr\<rparr>"
    from True Suc.prems have "nat (k - int (Suc i)) \<le> fuel" by simp
    from Suc.IH[OF this, of "Some mag" "acc @ [fr']"]
    obtain fs where fs: "featureLoop an hop sr (Fin k) fuel (Suc i) (Some mag) (acc @ [fr']) = Some ((acc @ [fr']) @ fs)"
      "length fs = nat (k - int (Suc i))"
      "\<forall>j<length fs. FrameFeatures.time (fs ! j) = real_of_int (int (Suc i + j) * hop) / sr" by blast
    have "featureLoop an hop sr (Fin k) (Suc fuel) i prev acc = Some (acc @ (fr' # fs))"
      using True an fs(1) by (simp add: fr'_def)
    moreover have "length (fr' # fs) = nat (k - int i)" using fs(2) True by simp
    moreover have "\<forall>j<length (fr' # fs). FrameFeatures.time ((fr' # fs) ! j) = real_of_int (int (i + j) * hop) / sr"
    proof (intro allI impI)
      fix j assume "j < length (fr' # fs)"
      then show "FrameFeatures.time ((fr' # fs) ! j) = real_of_int (int (i + j) * hop) / sr"
        using fs(3) by (cases j) (auto simp: fr'_def)
    qed
    ultimately show ?thesis by blast
  qed
qed

lemma strict_times_sorted:
  assumes "0 < (c::real)" "\<forall>i<length xs. f (xs ! i) = real i * c"
  shows "sorted_wrt (\<lambda>a b. f a < f b) xs"
  unfolding sorted_wrt_iff_nth_less using assms by auto

text \<open>
  The client. With a frame size between 0 and the number of samples, a positive hop
  size, a positive sample rate and parameters that no allocation rejects,
  \<open>extractFeatures\<close> returns exactly \<open>floor((numSamples - frameSize) / hopSize)\<close> frames,
  frame \<open>i\<close> has time \<open>i * hopSize / sampleRate\<close>, and the times increase strictly,
  whatever the per-frame extractors compute.
\<close>

lemma extractFeatures_frames:
  assumes "0 \<le> frameSize cfg" and "frameSize cfg \<le> int n" and "- 2 \<le> numMelBands cfg"
    and "0 < hopSize cfg" and "0 < sampleRate" and "0 \<le> numMFCC cfg"
  shows "\<exists>fs. extractFeatures an cfg n sampleRate = Returns fs \<and>
            int (length fs) = \<lfloor>(real n - real_of_int (frameSize cfg)) / real_of_int (hopSize cfg)\<rfloor> \<and>
            (\<forall>i<length fs. FrameFeatures.time (fs ! i) = real i * real_of_int (hopSize cfg) / sampleRate) \<and>
            sorted_wrt (\<lambda>a b. FrameFeatures.time a < FrameFeatures.time b) fs"
proof -
  let ?k = "\<lfloor>real_of_int (int n - frameSize cfg) / real_of_int (hopSize cfg)\<rfloor>"
  have k0: "0 \<le> ?k" using assms(2,4) by simp
  have nf: "floorDiv (int n - frameSize cfg) (hopSize cfg) = Fin ?k"
    using assms(4) by (simp add: floorDiv_def)
  from featureLoop_Fin[of ?k 0 "nat ?k" an "hopSize cfg" sampleRate None "[]"]
  obtain fs where fs: "featureLoop an (hopSize cfg) sampleRate (Fin ?k) (nat ?k) 0 None [] = Some fs"
    "length fs = nat ?k"
    "\<forall>j<length fs. FrameFeatures.time (fs ! j) = real_of_int (int j * hopSize cfg) / sampleRate"
    by auto
  have 1: "extractFeatures an cfg n sampleRate = Returns fs"
    using fs(1) assms(1,3,6) by (simp add: extractFeatures_def nf loopFuel_def)
  have 2: "int (length fs) = \<lfloor>(real n - real_of_int (frameSize cfg)) / real_of_int (hopSize cfg)\<rfloor>"
    using fs(2) k0 by simp
  have 3: "\<forall>i<length fs. FrameFeatures.time (fs ! i) = real i * (real_of_int (hopSize cfg) / sampleRate)"
    using fs(3) by simp
  have "0 < real_of_int (hopSize cfg) / sampleRate" using assms(4,5) by simp
  from strict_times_sorted[OF this 3] have 4: "sorted_wrt (\<lambda>a b. FrameFeatures.time a < FrameFeatures.time b) fs" .
  show ?thesis using 1 2 3 4 by simp
qed

text \<open>The server's loop, and the three passes after it, which keep every \<open>t\<close>.\<close>

lemma audioFrameLoop_spec:
  "\<exists>fs. audioFrameLoop an sr k i r prev acc = acc @ fs \<and>
        length fs = nat (k - int i) \<and>
        (\<forall>j<length fs. t (fs ! j) = real ((i + j) * 512) / sr)"
proof (induction an sr k i r prev acc rule: audioFrameLoop.induct)
  case (1 an sr k i r prev acc)
  show ?case
  proof (cases "int i < k")
    case False
    then show ?thesis by (subst audioFrameLoop.simps) simp
  next
    case True
    obtain fr fft where an: "an (i * 512) r prev = (fr, fft)" by (cases "an (i * 512) r prev")
    define fr' where "fr' = fr\<lparr> t := real (i * 512) / sr, AudioFrame.beatStrength := 0, AudioFrame.onsetLow := 0,
        AudioFrame.onsetMid := 0, AudioFrame.onsetHigh := 0 \<rparr>"
    from "1.IH"[OF True refl refl refl an[symmetric]]
    obtain fs where fs: "audioFrameLoop an sr k (Suc i) (amplitude fr) (Some fft) (acc @ [fr']) = (acc @ [fr']) @ fs"
      "length fs = nat (k - int (Suc i))"
      "\<forall>j<length fs. t (fs ! j) = real ((Suc i + j) * 512) / sr" 
      unfolding fr'_def by blast
    have "audioFrameLoop an sr k i r prev acc = acc @ (fr' # fs)"
      using True an fs(1) by (subst audioFrameLoop.simps) (simp add: fr'_def)
    moreover have "length (fr' # fs) = nat (k - int i)" using fs(2) True by simp
    moreover have "\<forall>j<length (fr' # fs). t ((fr' # fs) ! j) = real ((i + j) * 512) / sr"
    proof (intro allI impI)
      fix j assume "j < length (fr' # fs)"
      then show "t ((fr' # fs) ! j) = real ((i + j) * 512) / sr"
        using fs(3) by (cases j) (auto simp: fr'_def)
    qed
    ultimately show ?thesis by blast
  qed
qed

lemma smoothLoop_t: "map t (smoothLoop s fs) = map t fs"
  by (induction fs arbitrary: s) (auto simp: Let_def)

lemma applyTemporalSmoothing_t: "map t (applyTemporalSmoothing fs) = map t fs"
  by (simp add: applyTemporalSmoothing_def smoothLoop_t Let_def)

lemma onsetLoop_t: "map t (onsetLoop a b c fs) = map t fs"
  by (induction fs arbitrary: a b c) auto

lemma length_applyTemporalSmoothing: "length (applyTemporalSmoothing fs) = length fs"
  using applyTemporalSmoothing_t [of fs] by (metis length_map)

lemma length_onsetLoop: "length (onsetLoop a b c fs) = length fs"
  using onsetLoop_t [of a b c fs] by (metis length_map)

lemma map_t_onset_update:
  "map t (map (\<lambda>f. f\<lparr> AudioFrame.onsetLow := a f, AudioFrame.onsetMid := b f,
                        AudioFrame.onsetHigh := c f \<rparr>) fs) = map t fs"
  by (induction fs) auto

lemma computeBandOnsets_t:
  "computeBandOnsets argLimit fs = Inr gs \<Longrightarrow> map t gs = map t fs"
  by (auto simp: computeBandOnsets_def Let_def onsetLoop_t map_t_onset_update
      simp del: map_map split: if_splits sum.splits)

lemma computeBandOnsets_returns:
  assumes "length fs < 2 \<or> length fs < argLimit"
  shows "\<exists>gs. computeBandOnsets argLimit fs = Inr gs"
  using assms by (auto simp: computeBandOnsets_def Let_def spreadMax_def length_onsetLoop)

lemma computeBandOnsets_throws:
  assumes "2 \<le> length fs" and "argLimit \<le> length fs"
  shows "computeBandOnsets argLimit fs = Inl RangeError"
  using assms by (simp add: computeBandOnsets_def Let_def spreadMax_def length_onsetLoop)

lemma markBeat_t: "t (markBeat nf w i f) = t f"
  by (simp add: markBeat_def)

lemma markAll_t: "map t (map (\<lambda>(i, f). markBeat nf w i f) (zip [0..<length fs] fs)) = map t fs"
  by (rule nth_equalityI) (auto simp: markBeat_t)


lemma map_t_beat_update:
  "map t (map (\<lambda>f. f\<lparr> AudioFrame.beatStrength := a f \<rparr>) fs) = map t fs"
  by (induction fs) auto

lemma detectBeats_t:
  "detectBeats argLimit fs = Inr gs \<Longrightarrow> map t gs = map t fs"
  using markAll_t [of _ _ fs]
  by (auto simp: detectBeats_def Let_def map_t_beat_update
      simp del: map_map split: if_splits sum.splits)

lemma detectBeats_returns:
  assumes "length fs < 10 \<or> length fs \<le> argLimit"
  shows "\<exists>gs. detectBeats argLimit fs = Inr gs"
  using assms by (auto simp: detectBeats_def Let_def spreadMax_def)

lemma extractAudioFrames_t:
  "extractAudioFrames argLimit an samples sr = Inr gs \<Longrightarrow>
   map t gs = map t (audioFrameLoop an sr \<lfloor>(real (length samples) - 2048) / 512\<rfloor> 0 0 None [])"
  by (auto simp: extractAudioFrames_def Let_def applyTemporalSmoothing_t
      dest!: detectBeats_t computeBandOnsets_t split: sum.splits)

lemma length_audioFrameLoop:
  "length (audioFrameLoop an sr k 0 0 None []) = nat k"
  using audioFrameLoop_spec [of an sr k 0 0 None "[]"] by auto

text \<open>
  The server. \<open>extractAudioFrames\<close> returns when the number of frames is below the
  number of arguments the engine accepts in a call (or below 2, when \<open>computeBandOnsets\<close>
  and \<open>detectBeats\<close> return at once); what it returns has
  \<open>floor((numSamples - 2048) / 512)\<close> frames, frame \<open>i\<close> at time \<open>i * 512 / sampleRate\<close>,
  strictly increasing. With at least 2 frames and at least as many frames as the engine
  accepts arguments it throws.
\<close>

lemma extractAudioFrames_returns:
  assumes "nat \<lfloor>(real (length samples) - 2048) / 512\<rfloor> < 2 \<or>
           nat \<lfloor>(real (length samples) - 2048) / 512\<rfloor> < argLimit"
  shows "\<exists>gs. extractAudioFrames argLimit an samples sr = Inr gs"
proof -
  let ?k = "\<lfloor>(real (length samples) - 2048) / 512\<rfloor>"
  let ?fs = "applyTemporalSmoothing (audioFrameLoop an sr ?k 0 0 None [])"
  have len: "length ?fs = nat ?k"
    by (simp add: length_applyTemporalSmoothing length_audioFrameLoop)
  from assms len have "length ?fs < 2 \<or> length ?fs < argLimit" by simp
  from computeBandOnsets_returns [OF this]
  obtain hs where hs: "computeBandOnsets argLimit ?fs = Inr hs" by blast
  from computeBandOnsets_t [OF hs] have "length hs = length ?fs" by (metis length_map)
  with assms len have "length hs < 10 \<or> length hs \<le> argLimit" by auto
  from detectBeats_returns [OF this]
  obtain gs where "detectBeats argLimit hs = Inr gs" by blast
  with hs show ?thesis by (simp add: extractAudioFrames_def Let_def)
qed

lemma extractAudioFrames_frames:
  assumes "2048 \<le> length samples" and "0 < sampleRate"
    and "extractAudioFrames argLimit an samples sampleRate = Inr fs"
  shows "int (length fs) = \<lfloor>(real (length samples) - 2048) / 512\<rfloor> \<and>
         (\<forall>i<length fs. t (fs ! i) = real i * 512 / sampleRate) \<and>
         sorted_wrt (\<lambda>a b. t a < t b) fs"
proof -
  let ?k = "\<lfloor>(real (length samples) - 2048) / 512\<rfloor>"
  have k0: "0 \<le> ?k" using assms(1) by simp
  from audioFrameLoop_spec[of an sampleRate ?k 0 0 None "[]"]
  obtain gs where gs: "audioFrameLoop an sampleRate ?k 0 0 None [] = gs"
    "length gs = nat ?k" "\<forall>j<length gs. t (gs ! j) = real (j * 512) / sampleRate"
    by auto
  have mt: "map t fs = map t gs" using gs(1) extractAudioFrames_t [OF assms(3)] by simp
  then have len: "length fs = length gs" by (metis length_map)
  have 2: "int (length fs) = ?k" using len gs(2) k0 by simp
  have 3: "\<forall>i<length fs. t (fs ! i) = real i * (512 / sampleRate)"
  proof (intro allI impI)
    fix i assume i: "i < length fs"
    then have "t (fs ! i) = map t fs ! i" by simp
    also have "\<dots> = t (gs ! i)" using mt i len by simp
    finally show "t (fs ! i) = real i * (512 / sampleRate)" using gs(3) i len by simp
  qed
  have "0 < 512 / sampleRate" using assms(2) by simp
  from strict_times_sorted[OF this 3] have 4: "sorted_wrt (\<lambda>a b. t a < t b) fs" .
  show ?thesis using 2 3 4 by simp
qed

lemma extractAudioFrames_throws:
  assumes "2 \<le> nat \<lfloor>(real (length samples) - 2048) / 512\<rfloor>"
    and "argLimit \<le> nat \<lfloor>(real (length samples) - 2048) / 512\<rfloor>"
  shows "extractAudioFrames argLimit an samples sr = Inl RangeError"
proof -
  let ?k = "\<lfloor>(real (length samples) - 2048) / 512\<rfloor>"
  let ?fs = "applyTemporalSmoothing (audioFrameLoop an sr ?k 0 0 None [])"
  have len: "length ?fs = nat ?k"
    by (simp add: length_applyTemporalSmoothing length_audioFrameLoop)
  have "computeBandOnsets argLimit ?fs = Inl RangeError"
    using assms len by (intro computeBandOnsets_throws) simp_all
  then show ?thesis by (simp add: extractAudioFrames_def Let_def)
qed

text \<open>
  Claim C1. For every sample buffer of at least \<open>frameSize\<close> samples the
  feature-extraction loop produces exactly \<open>floor((numSamples - frameSize) / hopSize)\<close>
  frames, frame \<open>i\<close> having time \<open>i * hopSize / sampleRate\<close>. The server does not:
  \<open>computeBandOnsets\<close> passes one argument per frame, and one more, to a single call of
  \<open>Math.max\<close>. A mono recording of 66562048 samples (25 min 9 s at 44.1 kHz) has
  \<open>floor((66562048 - 2048) / 512) = 130000\<close> frames; the loop builds all of them, and
  then \<open>extractAudioFrames\<close> throws a \<open>RangeError\<close> instead of returning them, exactly when
  the engine accepts no more than 130000 arguments in a call.
\<close>

theorem long_recording_throws:
  assumes "length samples = 66562048"
  shows "\<lfloor>(real (length samples) - 2048) / 512\<rfloor> = 130000 \<and>
         length (audioFrameLoop an sampleRate 130000 0 0 None []) = 130000 \<and>
         (extractAudioFrames argLimit an samples sampleRate = Inl RangeError \<longleftrightarrow>
            argLimit \<le> 130000)"
proof -
  have k: "\<lfloor>(real (length samples) - 2048) / 512\<rfloor> = 130000"
    unfolding assms by simp
  have thrown: "extractAudioFrames argLimit an samples sampleRate = Inl RangeError"
    if "argLimit \<le> 130000"
    using that by (intro extractAudioFrames_throws) (simp_all add: k)
  have returned: "extractAudioFrames argLimit an samples sampleRate \<noteq> Inl RangeError"
    if "\<not> argLimit \<le> 130000"
  proof -
    from that have "nat \<lfloor>(real (length samples) - 2048) / 512\<rfloor> < 2 \<or>
        nat \<lfloor>(real (length samples) - 2048) / 512\<rfloor> < argLimit"
      by (simp add: k)
    from extractAudioFrames_returns [OF this]
    obtain gs where "extractAudioFrames argLimit an samples sampleRate = Inr gs" by blast
    then show ?thesis by simp
  qed
  from k thrown returned show ?thesis by (auto simp: length_audioFrameLoop)
qed

theorem long_recording_throws_witness:
  "length (replicate 66562048 (0::real)) = 66562048 \<and>
   \<lfloor>(real (length (replicate 66562048 (0::real))) - 2048) / 512\<rfloor> = 130000 \<and>
   extractAudioFrames 125001 quietAnalyser (replicate 66562048 0) 44100 = Inl RangeError"
  using long_recording_throws [of "replicate 66562048 0" quietAnalyser 44100 125001]
  by simp

subsection \<open>Buffers shorter than one frame\<close>

lemma audioFrameLoop_none: "numFrames \<le> 0 \<Longrightarrow> audioFrameLoop an sr numFrames 0 r p acc = acc"
  by (subst audioFrameLoop.simps) simp

lemma extractAudioFrames_short:
  assumes "length samples < 2048"
  shows "extractAudioFrames argLimit an samples sr = Inr []"
proof -
  have "(real (length samples) - 2048) / 512 < 0" using assms by simp
  then have "\<lfloor>(real (length samples) - 2048) / 512\<rfloor> \<le> 0" by linarith
  then show ?thesis
    by (simp add: extractAudioFrames_def audioFrameLoop_none applyTemporalSmoothing_def
        computeBandOnsets_def detectBeats_def)
qed

text \<open>
  Claim C4, as amended. An empty sample buffer makes the analysis throw (an \<open>Error\<close>
  with the message \<open>Could not extract audio samples from the file.\<close>) and nothing is
  returned. A non-empty buffer of fewer than \<open>frameSize = 2048\<close> samples does not
  abort: no frame is extracted, and the analysis returns a result with the duration,
  the sample rate and an empty list of phrases.
\<close>

theorem short_buffer_result:
  "(samples = [] \<longrightarrow>
      analyzeAudioFile argLimit an samples sampleRate =
        Inl (Error ''Could not extract audio samples from the file.'')) \<and>
   (samples \<noteq> [] \<and> length samples < 2048 \<longrightarrow>
      analyzeAudioFile argLimit an samples sampleRate =
        Inr \<lparr> res_duration = real (length samples) / sampleRate,
              res_sampleRate = sampleRate, res_verses = [] \<rparr>)"
  by (simp add: analyzeAudioFile_def extractAudioFrames_short segmentIntoVerses_def
      segmentIntoVersesWith_def mapFramesToVisualization_def)

theorem short_buffer_result_witness:
  "analyzeAudioFile 125001 quietAnalyser [] 44100 =
     Inl (Error ''Could not extract audio samples from the file.'') \<and>
   [1 / 2, 1 / 4] \<noteq> ([] :: real list) \<and> length [1 / 2, 1 / 4 :: real] < 2048 \<and>
   analyzeAudioFile 125001 quietAnalyser [1 / 2, 1 / 4] 44100 =
     Inr \<lparr> res_duration = 2 / 44100, res_sampleRate = 44100, res_verses = [] \<rparr>"
  using short_buffer_result [of "[]" 125001 quietAnalyser 44100]
    short_buffer_result [of "[1 / 2, 1 / 4]" 125001 quietAnalyser 44100]
  by simp

text \<open>
  The claim as stated fails: a buffer of one sample is shorter than a frame, and the
  analysis returns.
\<close>

theorem short_buffer_no_error_counterexample:
  "analyzeAudioFile 125001 quietAnalyser [1 / 2] 44100 =
     Inr \<lparr> res_duration = 1 / 44100, res_sampleRate = 44100, res_verses = [] \<rparr>"
  by (simp add: analyzeAudioFile_def extractAudioFrames_def audioFrameLoop.simps
      applyTemporalSmoothing_def computeBandOnsets_def detectBeats_def segmentIntoVerses_def
      segmentIntoVersesWith_def mapFramesToVisualization_def)

subsection \<open>Edges of the nearest-neighbour graph\<close>

lemma edgeKey_eq_iff: "edgeKey a b = edgeKey c d \<longleftrightarrow> {a, b} = {c, d}"
  by (auto simp: edgeKey_def doubleton_eq_iff)

lemma addEdge_inv:
  "edgesInv n st \<Longrightarrow> i \<noteq> j \<Longrightarrow> i < n \<Longrightarrow> j < n \<Longrightarrow> edgesInv n (addEdge i st j)"
  by (cases st) (auto simp: edgesInv_def addEdge_def)

lemma foldl_addEdge_inv:
  "edgesInv n st \<Longrightarrow> i < n \<Longrightarrow> \<forall>j\<in>set js. j \<noteq> i \<and> j < n \<Longrightarrow>
   edgesInv n (foldl (addEdge i) st js)"
  by (induction js arbitrary: st) (auto simp: addEdge_inv)

lemma neighboursOf_range:
  "j \<in> set (neighboursOf points k i) \<Longrightarrow> j \<noteq> i \<and> j < length points"
proof -
  assume "j \<in> set (neighboursOf points k i)"
  then have "j \<in> fst ` set (sortedDistances points i)"
    by (auto simp: neighboursOf_def Let_def dest: in_set_takeD)
  then show ?thesis by (auto simp: sortedDistances_def)
qed

lemma outer_inv:
  "edgesInv (length points) st \<Longrightarrow> \<forall>i\<in>set is. i < length points \<Longrightarrow>
   edgesInv (length points)
     (foldl (\<lambda>st i. foldl (addEdge i) st (neighboursOf points k i)) st is)"
proof (induction "is" arbitrary: st)
  case Nil
  then show ?case by simp
next
  case (Cons i "is")
  have "edgesInv (length points) (foldl (addEdge i) st (neighboursOf points k i))"
    using Cons.prems neighboursOf_range[of _ points k i]
    by (intro foldl_addEdge_inv) auto
  then show ?case using Cons by simp
qed


text \<open>
  Claim C6, as amended. Every edge \<open>[i, j]\<close> that \<open>findKNearestNeighbors\<close> stores joins
  two different indices of the point list, and no unordered pair occurs twice. The pair
  is stored as \<open>[i, j]\<close> with \<open>i\<close> the point whose neighbour list produced it; only the
  key of the seen-set is in canonical order.
\<close>

theorem knn_edges_distinct_no_loops:
  "(\<forall>(i, j)\<in>set (findKNearestNeighbors points k).
      i \<noteq> j \<and> i < length points \<and> j < length points) \<and>
   distinct (map (\<lambda>(i, j). {i, j}) (findKNearestNeighbors points k))"
proof -
  let ?st = "foldl (\<lambda>st i. foldl (addEdge i) st (neighboursOf points k i)) ([], {}) [0..<length points]"
  have "edgesInv (length points) ([], {})" by (simp add: edgesInv_def)
  then have inv: "edgesInv (length points) ?st" by (rule outer_inv) simp
  obtain es S where st: "?st = (es, S)" by (cases ?st)
  have es: "findKNearestNeighbors points k = es" by (simp add: findKNearestNeighbors_def st)
  from inv st have d: "distinct (map (\<lambda>(a, b). edgeKey a b) es)"
    and r: "\<forall>(a, b)\<in>set es. a \<noteq> b \<and> a < length points \<and> b < length points"
    by (auto simp: edgesInv_def)
  have "inj_on (\<lambda>(a, b). edgeKey a b) (set es)" using d by (simp add: distinct_map)
  then have "inj_on (\<lambda>(a, b). {a, b}) (set es)"
    unfolding inj_on_def
  proof (intro ballI impI)
    fix p q assume i: "\<forall>x\<in>set es. \<forall>y\<in>set es.
        (case x of (a, b) \<Rightarrow> edgeKey a b) = (case y of (a, b) \<Rightarrow> edgeKey a b) \<longrightarrow> x = y"
      and p: "p \<in> set es" and q: "q \<in> set es"
      and e: "(case p of (a, b) \<Rightarrow> {a, b}) = (case q of (a, b) \<Rightarrow> {a, b})"
    obtain a b c d where pq: "p = (a, b)" "q = (c, d)" by (cases p, cases q) blast
    from e pq have "edgeKey a b = edgeKey c d" by (simp add: edgeKey_eq_iff)
    with i p q pq show "p = q" by fastforce
  qed
  moreover have "distinct es" using d by (simp add: distinct_map)
  ultimately have "distinct (map (\<lambda>(i, j). {i, j}) es)" by (simp add: distinct_map)
  with r es show ?thesis by simp
qed

theorem knn_edges_distinct_no_loops_witness:
  "(0, 2) \<in> set (findKNearestNeighbors [pointAt 0, pointAt 1, pointAt 3] 3) \<and>
   (0::nat) \<noteq> 2 \<and> 2 < length [pointAt 0, pointAt 1, pointAt 3] \<and>
   distinct (map (\<lambda>(i, j). {i, j})
     (findKNearestNeighbors [pointAt 0, pointAt 1, pointAt 3] 3))"
proof -
  have "findKNearestNeighbors [pointAt 0, pointAt 1, pointAt 3] 3 = [(0, 1), (0, 2), (1, 2)]"
    by (simp add: findKNearestNeighbors_def neighboursOf_def sortedDistances_def
        pointDist_def pointAt_def addEdge_def edgeKey_def upt_rec [of 0])
  then show ?thesis
    using knn_edges_distinct_no_loops [of "[pointAt 0, pointAt 1, pointAt 3]" 3] by simp
qed

text \<open>
  The claim as stated fails: of five points on a line, the last one is nobody's
  neighbour, and its own three edges are stored with the larger index first.
\<close>

theorem knn_edge_order_counterexample:
  "findKNearestNeighbors [pointAt 0, pointAt 1, pointAt 2, pointAt 3, pointAt 10] 3 =
     [(0, 1), (0, 2), (0, 3), (1, 2), (1, 3), (2, 3), (4, 3), (4, 2), (4, 1)]"
  by (simp add: findKNearestNeighbors_def neighboursOf_def sortedDistances_def
      pointDist_def pointAt_def addEdge_def edgeKey_def upt_rec [of 0])

subsection \<open>The start of the first phrase\<close>

text \<open>Once a phrase has been closed, the first phrase of the list is never replaced.\<close>

lemma segLoop_hd:
  fixes amp tm :: "'f \<Rightarrow> real"
  assumes "vs \<noteq> []"
    and "segLoop amp tm thr rest vs verseStart verseFrames inSilence silenceStart = (vs', verseStart', verseFrames')"
  shows "vs' \<noteq> [] \<and> hd vs' = hd vs"
  using assms
proof (induction rest arbitrary: vs verseStart verseFrames inSilence silenceStart)
  case Nil
  then show ?case by auto
next
  case (Cons frame rest)
  let ?vs = "if silenceStart - verseStart \<ge> minVerseDuration
             then vs @ [\<lparr> vstart = verseStart, vend = silenceStart, vframes = verseFrames \<rparr>]
             else vs"
  have ne: "?vs \<noteq> []" and hd: "hd ?vs = hd vs" using Cons.prems(1) by auto
  from Cons.prems(2) consider
    (a) vst vf ins ss where "segLoop amp tm thr rest vs vst vf ins ss = (vs', verseStart', verseFrames')"
  | (b) vst vf ins ss where "segLoop amp tm thr rest ?vs vst vf ins ss = (vs', verseStart', verseFrames')"
    by (auto simp: Let_def split: if_splits)
  then show ?case
  proof cases
    case a
    from Cons.IH[OF Cons.prems(1) a] show ?thesis .
  next
    case b
    from Cons.IH[OF ne b] hd show ?thesis by simp
  qed
qed

text \<open>
  Once the start marker has been moved to the time of a frame, it stays at the time of
  a frame, the run is never empty again, and so is the start of every phrase closed
  later.
\<close>

lemma segLoop_late_start:
  fixes amp tm :: "'f \<Rightarrow> real"
  assumes "vs = [] \<or> vstart (hd vs) \<noteq> 0" and "verseStart \<noteq> 0" and "verseFrames \<noteq> []"
    and "\<forall>f\<in>set rest. tm f \<noteq> 0"
    and "segLoop amp tm thr rest vs verseStart verseFrames inSilence silenceStart = (vs', verseStart', verseFrames')"
  shows "verseFrames' \<noteq> [] \<and> verseStart' \<noteq> 0 \<and> (vs' = [] \<or> vstart (hd vs') \<noteq> 0)"
  using assms
proof (induction rest arbitrary: vs verseStart verseFrames inSilence silenceStart)
  case Nil
  then show ?case by auto
next
  case (Cons frame rest)
  let ?vs = "if silenceStart - verseStart \<ge> minVerseDuration
             then vs @ [\<lparr> vstart = verseStart, vend = silenceStart, vframes = verseFrames \<rparr>]
             else vs"
  have hd: "?vs = [] \<or> vstart (hd ?vs) \<noteq> 0" using Cons.prems(1,2) by (cases vs) auto
  have nz: "tm frame \<noteq> 0" and rest: "\<forall>f\<in>set rest. tm f \<noteq> 0" using Cons.prems(4) by auto
  from Cons.prems(5) consider
    (a) ins ss where
      "segLoop amp tm thr rest vs verseStart verseFrames ins ss = (vs', verseStart', verseFrames')"
  | (a') ins ss where
      "segLoop amp tm thr rest vs verseStart (verseFrames @ [frame]) ins ss = (vs', verseStart', verseFrames')"
  | (b) "segLoop amp tm thr rest ?vs (tm frame) [frame] False silenceStart = (vs', verseStart', verseFrames')"
    by (auto simp: Let_def split: if_splits)
  then show ?case
  proof cases
    case a
    from Cons.IH[OF Cons.prems(1,2,3) rest a] show ?thesis .
  next
    case a'
    from Cons.IH[OF Cons.prems(1,2) _ rest a'] show ?thesis by simp
  next
    case b
    from Cons.IH[OF hd nz _ rest b] show ?thesis by simp
  qed
qed

text \<open>
  The scan up to the silence that first closes a run. If none does, no phrase is closed
  and the marker is still 0 at the end. If that silence starts at 0.3 s or later, the
  run it closes is emitted with start 0. If it starts earlier, the run is dropped and
  the marker moves to the time of the frame that ends the silence.
\<close>

lemma segLoop_first_closing:
  fixes amp tm :: "'f \<Rightarrow> real"
  assumes "segLoop amp tm thr rest [] 0 verseFrames inSilence silenceStart = (vs', verseStart', verseFrames')"
  shows "case firstClosingSilence amp tm thr rest (verseFrames \<noteq> []) inSilence silenceStart of
           None \<Rightarrow> vs' = [] \<and> verseStart' = 0
         | Some s \<Rightarrow> minVerseDuration \<le> s \<longrightarrow> vs' \<noteq> [] \<and> vstart (hd vs') = 0"
  using assms
proof (induction rest arbitrary: verseFrames inSilence silenceStart)
  case Nil
  then show ?case by auto
next
  case (Cons frame rest)
  show ?case
  proof (cases "\<not> amp frame < thr \<and> inSilence \<and> tm frame - silenceStart > minSilenceDuration \<and> verseFrames \<noteq> []")
    case True
    let ?vs = "if silenceStart - 0 \<ge> minVerseDuration
               then [] @ [\<lparr> vstart = 0, vend = silenceStart, vframes = verseFrames \<rparr>]
               else []"
    from True Cons.prems
    have run: "segLoop amp tm thr rest ?vs (tm frame) [frame] False silenceStart = (vs', verseStart', verseFrames')"
      by simp
    have f: "firstClosingSilence amp tm thr (frame # rest) (verseFrames \<noteq> []) inSilence silenceStart = Some silenceStart"
      using True by simp
    show ?thesis
    proof (cases "minVerseDuration \<le> silenceStart")
      case False
      with f show ?thesis by simp
    next
      case ok: True
      then have ne: "?vs \<noteq> []" by simp
      from segLoop_hd[OF ne run] ok f show ?thesis by simp
    qed
  next
    case False
    then consider
      (a) "amp frame < thr" "\<not> inSilence"
    | (b) "\<not> amp frame < thr" "inSilence" "\<not> (tm frame - silenceStart > minSilenceDuration \<and> verseFrames \<noteq> [])"
    | (c) "amp frame < thr" "inSilence"
    | (d) "\<not> amp frame < thr" "\<not> inSilence"
      by blast
    then show ?thesis
    proof cases
      case a
      with Cons.prems have "segLoop amp tm thr rest [] 0 verseFrames True (tm frame) = (vs', verseStart', verseFrames')"
        by simp
      from Cons.IH[OF this] a show ?thesis by simp
    next
      case b
      with Cons.prems have "segLoop amp tm thr rest [] 0 (verseFrames @ [frame]) False silenceStart = (vs', verseStart', verseFrames')"
        by auto
      from Cons.IH[OF this] b show ?thesis by auto
    next
      case c
      with Cons.prems have "segLoop amp tm thr rest [] 0 verseFrames inSilence silenceStart = (vs', verseStart', verseFrames')"
        by simp
      from Cons.IH[OF this] c show ?thesis by simp
    next
      case d
      with Cons.prems have "segLoop amp tm thr rest [] 0 (verseFrames @ [frame]) inSilence silenceStart = (vs', verseStart', verseFrames')"
        by simp
      from Cons.IH[OF this] d show ?thesis by simp
    qed
  qed
qed

lemma segLoop_first_closing_early:
  fixes amp tm :: "'f \<Rightarrow> real"
  assumes "segLoop amp tm thr rest [] 0 verseFrames inSilence silenceStart = (vs', verseStart', verseFrames')"
    and "firstClosingSilence amp tm thr rest (verseFrames \<noteq> []) inSilence silenceStart = Some s"
    and "s < minVerseDuration"
    and "inSilence \<Longrightarrow> \<forall>f\<in>set rest. tm f \<noteq> 0"
    and "\<forall>f\<in>set (tl rest). tm f \<noteq> 0"
  shows "verseFrames' \<noteq> [] \<and> verseStart' \<noteq> 0 \<and> (vs' = [] \<or> vstart (hd vs') \<noteq> 0)"
  using assms
proof (induction rest arbitrary: verseFrames inSilence silenceStart)
  case Nil
  then show ?case by auto
next
  case (Cons frame rest)
  have rest: "\<forall>f\<in>set rest. tm f \<noteq> 0" using Cons.prems(5) by simp
  then have tl: "\<forall>f\<in>set (tl rest). tm f \<noteq> 0" by (cases rest) auto
  show ?case
  proof (cases "\<not> amp frame < thr \<and> inSilence \<and> tm frame - silenceStart > minSilenceDuration \<and> verseFrames \<noteq> []")
    case True
    then have f: "firstClosingSilence amp tm thr (frame # rest) (verseFrames \<noteq> []) inSilence silenceStart = Some silenceStart"
      by simp
    with Cons.prems(2,3) have early: "silenceStart < minVerseDuration" by simp
    from True Cons.prems(1) early
    have run: "segLoop amp tm thr rest [] (tm frame) [frame] False silenceStart = (vs', verseStart', verseFrames')"
      by simp
    have nz: "tm frame \<noteq> 0" using Cons.prems(4) True by simp
    from segLoop_late_start[OF _ nz _ rest run] show ?thesis by simp
  next
    case False
    then consider
      (a) "amp frame < thr" "\<not> inSilence"
    | (b) "\<not> amp frame < thr" "inSilence" "\<not> (tm frame - silenceStart > minSilenceDuration \<and> verseFrames \<noteq> [])"
    | (c) "amp frame < thr" "inSilence"
    | (d) "\<not> amp frame < thr" "\<not> inSilence"
      by blast
    then show ?thesis
    proof cases
      case a
      with Cons.prems(1) have r: "segLoop amp tm thr rest [] 0 verseFrames True (tm frame) = (vs', verseStart', verseFrames')"
        by simp
      from a Cons.prems(2) have f: "firstClosingSilence amp tm thr rest (verseFrames \<noteq> []) True (tm frame) = Some s"
        by simp
      from Cons.IH[OF r f Cons.prems(3) _ tl] rest show ?thesis by simp
    next
      case b
      with Cons.prems(1) have r: "segLoop amp tm thr rest [] 0 (verseFrames @ [frame]) False silenceStart = (vs', verseStart', verseFrames')"
        by auto
      from b Cons.prems(2) have f: "firstClosingSilence amp tm thr rest (verseFrames @ [frame] \<noteq> []) False silenceStart = Some s"
        by auto
      from Cons.IH[OF r f Cons.prems(3) _ tl] show ?thesis by simp
    next
      case c
      with Cons.prems(1) have r: "segLoop amp tm thr rest [] 0 verseFrames inSilence silenceStart = (vs', verseStart', verseFrames')"
        by simp
      from c Cons.prems(2) have f: "firstClosingSilence amp tm thr rest (verseFrames \<noteq> []) inSilence silenceStart = Some s"
        by simp
      from Cons.IH[OF r f Cons.prems(3) _ tl] rest show ?thesis by simp
    next
      case d
      with Cons.prems(1) have r: "segLoop amp tm thr rest [] 0 (verseFrames @ [frame]) inSilence silenceStart = (vs', verseStart', verseFrames')"
        by simp
      from d Cons.prems(2) have f: "firstClosingSilence amp tm thr rest (verseFrames @ [frame] \<noteq> []) inSilence silenceStart = Some s"
        by simp
      from Cons.IH[OF r f Cons.prems(3) _ tl] d show ?thesis by simp
    qed
  qed
qed

text \<open>
  Claim C10, as amended. Suppose the silence-based segmenter emits at least one phrase.
  The first emitted phrase has start time 0, also when the track begins with silence,
  if no silence of more than 0.2 s closes a run of non-silent frames, or if the first
  silence that does starts at 0.3 s or later. If the first such silence starts before
  0.3 s, the run it closes is dropped as too short, the start marker moves all the
  same, and the first emitted phrase starts at the time of a later frame: not at 0,
  when no frame after the first has time 0. The frame type and the two field reads are
  parameters, so this covers both server variants of \<open>segmentIntoVerses\<close>.
\<close>

theorem first_phrase_starts_at_zero:
  fixes amp tm :: "'f \<Rightarrow> real"
  assumes emitted: "silenceVerses amp tm frames duration \<noteq> []"
  shows "case firstClosingSilence amp tm (maxOf (map amp frames) * 0.1) frames False False 0 of
           None \<Rightarrow> vstart (hd (silenceVerses amp tm frames duration)) = 0
         | Some s \<Rightarrow>
             (minVerseDuration \<le> s \<longrightarrow>
                vstart (hd (silenceVerses amp tm frames duration)) = 0) \<and>
             (s < minVerseDuration \<and> (\<forall>f\<in>set (tl frames). tm f \<noteq> 0) \<longrightarrow>
                vstart (hd (silenceVerses amp tm frames duration)) \<noteq> 0)"
proof -
  let ?thr = "maxOf (map amp frames) * 0.1"
  obtain vs verseStart verseFrames
    where run: "segLoop amp tm ?thr frames [] 0 [] False 0 = (vs, verseStart, verseFrames)"
    using prod_cases3 by blast
  have sv: "silenceVerses amp tm frames duration =
      (if verseFrames \<noteq> [] then vs @ [\<lparr> vstart = verseStart, vend = duration, vframes = verseFrames \<rparr>] else vs)"
    unfolding silenceVerses_def Let_def run by simp
  from segLoop_first_closing[OF run]
  have A: "case firstClosingSilence amp tm ?thr frames False False 0 of
           None \<Rightarrow> vs = [] \<and> verseStart = 0
         | Some s \<Rightarrow> minVerseDuration \<le> s \<longrightarrow> vs \<noteq> [] \<and> vstart (hd vs) = 0"
    by simp
  show ?thesis
  proof (cases "firstClosingSilence amp tm ?thr frames False False 0")
    case None
    with A have "vs = []" "verseStart = 0" by simp_all
    with sv emitted None show ?thesis by (auto split: if_splits)
  next
    case (Some s)
    have good: "vstart (hd (silenceVerses amp tm frames duration)) = 0" if "minVerseDuration \<le> s"
    proof -
      from A Some that have "vs \<noteq> []" "vstart (hd vs) = 0" by simp_all
      with sv show ?thesis by (cases vs) auto
    qed
    have bad: "vstart (hd (silenceVerses amp tm frames duration)) \<noteq> 0"
      if "s < minVerseDuration" "\<forall>f\<in>set (tl frames). tm f \<noteq> 0"
    proof -
      have f: "firstClosingSilence amp tm ?thr frames (([]::'f list) \<noteq> []) False 0 = Some s"
        using Some by simp
      from segLoop_first_closing_early[OF run f that(1) _ that(2)]
      have "verseFrames \<noteq> []" "verseStart \<noteq> 0" "vs = [] \<or> vstart (hd vs) \<noteq> 0" by simp_all
      with sv show ?thesis by (cases vs) auto
    qed
    from good bad Some show ?thesis by simp
  qed
qed

theorem first_phrase_starts_at_zero_witness:
  "silenceVerses amplitude t
     [frameAt 0 1, frameAt 0.1 0, frameAt 0.15 1, frameAt 0.5 0, frameAt 0.8 1] 1 \<noteq> [] \<and>
   firstClosingSilence amplitude t
     (maxOf (map amplitude
        [frameAt 0 1, frameAt 0.1 0, frameAt 0.15 1, frameAt 0.5 0, frameAt 0.8 1]) * 0.1)
     [frameAt 0 1, frameAt 0.1 0, frameAt 0.15 1, frameAt 0.5 0, frameAt 0.8 1]
     False False 0 = Some 0.5 \<and>
   minVerseDuration \<le> 0.5 \<and>
   vstart (hd (silenceVerses amplitude t
     [frameAt 0 1, frameAt 0.1 0, frameAt 0.15 1, frameAt 0.5 0, frameAt 0.8 1] 1)) = 0 \<and>
   silenceVerses amplitude t [frameAt 0 1, frameAt 0.1 0, frameAt 0.4 1] 0.5 \<noteq> [] \<and>
   firstClosingSilence amplitude t
     (maxOf (map amplitude [frameAt 0 1, frameAt 0.1 0, frameAt 0.4 1]) * 0.1)
     [frameAt 0 1, frameAt 0.1 0, frameAt 0.4 1] False False 0 = Some 0.1 \<and>
   0.1 < minVerseDuration \<and> t (frameAt 0.1 0) \<noteq> 0 \<and> t (frameAt 0.4 1) \<noteq> 0 \<and>
   vstart (hd (silenceVerses amplitude t
     [frameAt 0 1, frameAt 0.1 0, frameAt 0.4 1] 0.5)) \<noteq> 0 \<and>
   silenceVerses amplitude t [frameAt 0 0, frameAt 0.5 0, frameAt 1 1] 1.2 \<noteq> [] \<and>
   firstClosingSilence amplitude t
     (maxOf (map amplitude [frameAt 0 0, frameAt 0.5 0, frameAt 1 1]) * 0.1)
     [frameAt 0 0, frameAt 0.5 0, frameAt 1 1] False False 0 = None \<and>
   vstart (hd (silenceVerses amplitude t
     [frameAt 0 0, frameAt 0.5 0, frameAt 1 1] 1.2)) = 0"
proof -
  let ?fs = "[frameAt 0 1, frameAt 0.1 0, frameAt 0.15 1, frameAt 0.5 0, frameAt 0.8 1]"
  let ?gs = "[frameAt 0 1, frameAt 0.1 0, frameAt 0.4 1]"
  let ?hs = "[frameAt 0 0, frameAt 0.5 0, frameAt 1 1]"
  have "map (\<lambda>v. (vstart v, vend v)) (silenceVerses amplitude t ?fs 1) = [(0, 0.5), (0.8, 1)]"
    by (simp add: silenceVerses_def frameAt_def minSilenceDuration_def minVerseDuration_def)
  then have ne1: "silenceVerses amplitude t ?fs 1 \<noteq> []" by auto
  have f1: "firstClosingSilence amplitude t (maxOf (map amplitude ?fs) * 0.1) ?fs False False 0 = Some 0.5"
    by (simp add: frameAt_def minSilenceDuration_def)
  have "map (\<lambda>v. (vstart v, vend v)) (silenceVerses amplitude t ?gs 0.5) = [(0.4, 0.5)]"
    by (simp add: silenceVerses_def frameAt_def minSilenceDuration_def minVerseDuration_def)
  then have ne2: "silenceVerses amplitude t ?gs 0.5 \<noteq> []" by auto
  have f2: "firstClosingSilence amplitude t (maxOf (map amplitude ?gs) * 0.1) ?gs False False 0 = Some 0.1"
    by (simp add: frameAt_def minSilenceDuration_def)
  have "map (\<lambda>v. (vstart v, vend v)) (silenceVerses amplitude t ?hs 1.2) = [(0, 1.2)]"
    by (simp add: silenceVerses_def frameAt_def minSilenceDuration_def minVerseDuration_def)
  then have ne3: "silenceVerses amplitude t ?hs 1.2 \<noteq> []" by auto
  have f3: "firstClosingSilence amplitude t (maxOf (map amplitude ?hs) * 0.1) ?hs False False 0 = None"
    by (simp add: frameAt_def minSilenceDuration_def)
  have m: "minVerseDuration \<le> 0.5" "0.1 < minVerseDuration" by (simp_all add: minVerseDuration_def)
  have tz: "t (frameAt 0.1 0) \<noteq> 0" "t (frameAt 0.4 1) \<noteq> 0" by (simp_all add: frameAt_def)
  from first_phrase_starts_at_zero [OF ne1] f1 m
  have r1: "vstart (hd (silenceVerses amplitude t ?fs 1)) = 0" by simp
  from first_phrase_starts_at_zero [OF ne2] f2 m tz
  have r2: "vstart (hd (silenceVerses amplitude t ?gs 0.5)) \<noteq> 0" by simp
  from first_phrase_starts_at_zero [OF ne3] f3
  have r3: "vstart (hd (silenceVerses amplitude t ?hs 1.2)) = 0" by simp
  from ne1 f1 m r1 ne2 f2 tz r2 ne3 f3 r3 show ?thesis by blast
qed

text \<open>
  The claim as stated fails. The ten frames below are 0.05 s apart (hop 512 at
  10240 Hz) and carry the smoothed amplitudes of a click at the start of a recording of
  0.7 s and another in its last window. The amplitude falls below the threshold at
  0.2 s; the silence is closed at 0.45 s, the first run is dropped as shorter than
  0.3 s, the start marker moves to 0.45 s, and the only phrase emitted starts there.
\<close>

theorem first_phrase_start_counterexample:
  "map vstart (silenceVerses amplitude t
     [frameAt 0 0.4, frameAt 0.05 0.2, frameAt 0.1 0.1, frameAt 0.15 0.05,
      frameAt 0.2 0.025, frameAt 0.25 0.0125, frameAt 0.3 0.00625, frameAt 0.35 0.003125,
      frameAt 0.4 0.0015625, frameAt 0.45 0.25078125] 0.7) = [0.45]"
  by (simp add: silenceVerses_def frameAt_def minSilenceDuration_def minVerseDuration_def)

subsection \<open>The minimum duration of a phrase\<close>

text \<open>
  Claim C5. Every segment the segmenter emits satisfies \<open>start < end\<close> and
  \<open>end - start \<ge> 0.3\<close> s, the trailing segment included. The source compares
  \<open>verseDuration\<close> with \<open>minVerseDuration\<close> only where a silence closes a phrase; the
  trailing run is pushed without that test. The ten frames below are 0.05 s apart (hop
  512 at 10240 Hz) and carry the smoothed amplitudes of a click at the start of a
  recording of 0.7 s and another in its last window. The first run ends at 0.2 s and is
  dropped; the only phrase returned is the trailing one, and it lasts 0.25 s.
\<close>

theorem trailing_phrase_below_minimum:
  "segmentIntoVerses
     [frameAt 0 0.4, frameAt 0.05 0.2, frameAt 0.1 0.1, frameAt 0.15 0.05,
      frameAt 0.2 0.025, frameAt 0.25 0.0125, frameAt 0.3 0.00625, frameAt 0.35 0.003125,
      frameAt 0.4 0.0015625, frameAt 0.45 0.25078125] 0.7 =
     [\<lparr> vstart = 0.45, vend = 0.7, vframes = [frameAt 0.45 0.25078125] \<rparr>] \<and>
   (0.7 :: real) - 0.45 < minVerseDuration"
  by (simp add: segmentIntoVerses_def segmentIntoVersesWith_def silenceVerses_def frameAt_def
      minSilenceDuration_def minVerseDuration_def)

subsection \<open>Chroma vectors\<close>

lemma jsRem_pos: "0 \<le> a \<Longrightarrow> jsRem a 12 = a mod 12"
  by (cases "a = 0") (simp_all add: jsRem_def)

lemma jsRem_bounds: "- 12 < jsRem a 12 \<and> jsRem a 12 < 12"
proof -
  have m: "0 \<le> \<bar>a\<bar> mod 12" "\<bar>a\<bar> mod 12 < 12" by simp_all
  show ?thesis
    using m by (cases "a < 0"; cases "a = 0") (simp_all add: jsRem_def)
qed

lemma pitchClass_less: "pitchClass freq < 12"
proof -
  let ?r = "jsRem (jsRound (12 * log 2 (freq / 440))) 12"
  have "0 \<le> ?r + 12" using jsRem_bounds[of "jsRound (12 * log 2 (freq / 440))"] by simp
  then have "jsRem (?r + 12) 12 = (?r + 12) mod 12" by (rule jsRem_pos)
  moreover have "(?r + 12) mod 12 < 12" "0 \<le> (?r + 12) mod 12" by simp_all
  ultimately show ?thesis by (simp add: pitchClass_def Let_def)
qed

lemma sum_list_update_add:
  fixes xs :: "real list"
  shows "i < length xs \<Longrightarrow> sum_list (xs[i := xs ! i + v]) = sum_list xs + v"
  by (induction xs arbitrary: i) (auto split: nat.splits)

lemma chromaLoop_length:
  "length (chromaLoop m f s ks chr) = length chr"
  by (induction ks arbitrary: chr) (auto simp: Let_def)

lemma chromaLoop_sum:
  "length chr = 12 \<Longrightarrow>
   sum_list (chromaLoop m f s ks chr) =
     sum_list chr + (\<Sum>k\<leftarrow>ks. if binInRange k s f then m ! k * m ! k else 0)"
proof (induction ks arbitrary: chr)
  case Nil
  then show ?case by simp
next
  case (Cons k ks)
  show ?case
  proof (cases "binInRange k s f")
    case True
    let ?pc = "pitchClass (binFreq k s f)"
    have pc: "?pc < length chr" using pitchClass_less Cons.prems by simp
    have "length (chr[?pc := chr ! ?pc + m ! k * m ! k]) = 12" using Cons.prems by simp
    from Cons.IH[OF this] True pc show ?thesis
      by (simp add: Let_def sum_list_update_add)
  next
    case False
    with Cons show ?thesis by simp
  qed
qed

lemma chromaLoop_zero:
  "\<forall>k\<in>set ks. binInRange k s f \<longrightarrow> m ! k = 0 \<Longrightarrow> chromaLoop m f s ks chr = chr"
  by (induction ks arbitrary: chr) (auto simp: Let_def)

lemma energy_nonneg:
  "0 \<le> (\<Sum>k\<leftarrow>ks. if binInRange k s f then (m ! k * m ! k :: real) else 0)"
  by (rule sum_list_nonneg) auto

lemma energy_pos:
  assumes "k \<in> set ks" "binInRange k s f" "m ! k \<noteq> (0::real)"
  shows "0 < (\<Sum>k\<leftarrow>ks. if binInRange k s f then m ! k * m ! k else 0)"
proof -
  let ?g = "\<lambda>k. if binInRange k s f then m ! k * m ! k else 0"
  have "?g k \<in> set (map ?g ks)" using assms(1) by (simp only: set_map) (rule imageI)
  moreover have "\<forall>x\<in>set (map ?g ks). 0 \<le> x" by auto
  ultimately have "?g k \<le> sum_list (map ?g ks)" by (intro member_le_sum_list) auto
  moreover have "0 < ?g k" using assms(2,3) by (auto simp: zero_less_mult_iff)
  ultimately show ?thesis by linarith
qed

lemma energy_zero:
  assumes "(\<Sum>k\<leftarrow>ks. if binInRange k s f then (m ! k * m ! k :: real) else 0) = 0"
  shows "\<forall>k\<in>set ks. binInRange k s f \<longrightarrow> m ! k = 0"
proof (intro ballI impI, rule ccontr)
  fix k assume "k \<in> set ks" "binInRange k s f" "m ! k \<noteq> 0"
  from energy_pos[OF this] assms show False by simp
qed


lemma sum_list_divide_all:
  fixes xs :: "real list"
  shows "sum_list (map (\<lambda>c. c / s) xs) = sum_list xs / s"
  by (induction xs) (simp_all add: add_divide_distrib)

lemma computeChroma_length: "length (computeChroma m f s) = 12"
  by (simp add: computeChroma_def Let_def chromaLoop_length)


text \<open>
  Claim C2. For every magnitude spectrum the chroma vector has 12 entries; it sums to 1
  (so within \<open>1e-9\<close> of 1) whenever a bin whose frequency lies in \<open>[30, 5000]\<close> Hz has
  a nonzero magnitude, and it is the all-zero vector, left undivided, when the
  accumulated in-range energy is 0.
\<close>

theorem chroma_sums_to_one:
  "((\<exists>k<length magnitude. binInRange k sampleRate fftSize \<and> magnitude ! k \<noteq> 0) \<longrightarrow>
      sum_list (computeChroma magnitude fftSize sampleRate) = 1 \<and>
      \<bar>sum_list (computeChroma magnitude fftSize sampleRate) - 1\<bar> \<le> 1 / 10 ^ 9) \<and>
   (inRangeEnergy magnitude fftSize sampleRate = 0 \<longrightarrow>
      computeChroma magnitude fftSize sampleRate = replicate 12 0) \<and>
   length (computeChroma magnitude fftSize sampleRate) = 12"
proof (intro conjI impI)
  let ?ks = "[1..<length magnitude]"
  let ?chr = "chromaLoop magnitude fftSize sampleRate ?ks (replicate 12 0)"
  have s: "sum_list ?chr = inRangeEnergy magnitude fftSize sampleRate"
    by (simp add: chromaLoop_sum inRangeEnergy_def sum_list_replicate)
  {
    assume "\<exists>k<length magnitude. binInRange k sampleRate fftSize \<and> magnitude ! k \<noteq> 0"
    then obtain k where k: "k < length magnitude" "binInRange k sampleRate fftSize"
      "magnitude ! k \<noteq> 0" by blast
    have "k \<noteq> 0"
    proof
      assume "k = 0"
      with k(2) show False by (simp add: binInRange_def binFreq_def)
    qed
    with k(1) have "k \<in> set ?ks" by simp
    from energy_pos[OF this k(2,3)] have pos: "0 < sum_list ?chr"
      unfolding s inRangeEnergy_def .
    have "sum_list (map (\<lambda>c. c / sum_list ?chr) ?chr) = sum_list ?chr / sum_list ?chr"
      by (rule sum_list_divide_all)
    with pos show one: "sum_list (computeChroma magnitude fftSize sampleRate) = 1"
      by (simp add: computeChroma_def Let_def)
    then show "\<bar>sum_list (computeChroma magnitude fftSize sampleRate) - 1\<bar> \<le> 1 / 10 ^ 9"
      by simp
  }
  {
    assume "inRangeEnergy magnitude fftSize sampleRate = 0"
    then have "\<forall>k\<in>set ?ks. binInRange k sampleRate fftSize \<longrightarrow> magnitude ! k = 0"
      unfolding inRangeEnergy_def by (rule energy_zero)
    then have "?chr = replicate 12 0" by (rule chromaLoop_zero)
    then show "computeChroma magnitude fftSize sampleRate = replicate 12 0"
      by (simp add: computeChroma_def Let_def)
  }
  show "length (computeChroma magnitude fftSize sampleRate) = 12"
    by (rule computeChroma_length)
qed

theorem chroma_sums_to_one_witness:
  "(1::nat) < length [0, 1 :: real] \<and> binInRange 1 880 2 \<and> [0, 1 :: real] ! 1 \<noteq> 0 \<and>
   sum_list (computeChroma [0, 1] 2 880) = 1 \<and>
   computeChroma [0, 1] 2 880 = [1, 0, 0, 0, 0, 0, 0, 0, 0, 0, 0, 0] \<and>
   inRangeEnergy [0, 0] 2 880 = 0 \<and>
   computeChroma [0, 0] 2 880 = replicate 12 0"
proof -
  have r: "binInRange (Suc 0) 880 2" by (simp add: binInRange_def binFreq_def)
  have e: "inRangeEnergy [0, 0] 2 880 = 0" by (simp add: inRangeEnergy_def)
  have c: "computeChroma [0, 1] 2 880 = [1, 0, 0, 0, 0, 0, 0, 0, 0, 0, 0, 0]"
    by (simp add: computeChroma_def r binFreq_def pitchClass_def jsRound_def jsRem_def
        numeral_eq_Suc)
  from chroma_sums_to_one[of "[0, 1]" 880 2] chroma_sums_to_one[of "[0, 0]" 880 2] r e c
  show ?thesis by simp
qed

subsection \<open>Pitch detection\<close>

text \<open>A lag that the search returns is at least 2.\<close>

lemma localMin_ge: "tau \<le> localMin cmndf tau"
proof (induction cmndf tau rule: localMin.induct)
  case (1 cmndf tau)
  show ?case
  proof (cases "tau + 1 < length cmndf \<and> cmndf ! (tau + 1) < cmndf ! tau")
    case True
    with "1.IH" have "tau + 1 \<le> localMin cmndf (tau + 1)" by simp
    moreover have "localMin cmndf tau = localMin cmndf (tau + 1)"
      using True by (subst localMin.simps) simp
    ultimately show ?thesis by simp
  next
    case False
    then have "localMin cmndf tau = tau" by (subst localMin.simps) auto
    then show ?thesis by simp
  qed
qed

lemma firstCrossing_ge:
  "firstCrossing cmndf thr taus = Some (tau, v) \<Longrightarrow> \<forall>k\<in>set taus. 2 \<le> k \<Longrightarrow> 2 \<le> tau"
proof (induction taus)
  case Nil
  then show ?case by simp
next
  case (Cons k taus)
  show ?case
  proof (cases "cmndf ! k < thr")
    case True
    with Cons.prems(1) have "tau = localMin cmndf k" by (simp add: Let_def)
    with localMin_ge[of k cmndf] Cons.prems(2) show ?thesis by simp
  next
    case False
    with Cons show ?thesis by simp
  qed
qed

lemma globalMin_ge:
  "globalMin cmndf taus best bv = Some (tau, v) \<Longrightarrow> \<forall>k\<in>set taus. 2 \<le> k \<Longrightarrow>
   (\<And>t w. best = Some (t, w) \<Longrightarrow> 2 \<le> t) \<Longrightarrow> 2 \<le> tau"
proof (induction taus arbitrary: best bv)
  case Nil
  then show ?case by simp
next
  case (Cons k taus)
  show ?case
  proof (cases "cmndf ! k < bv")
    case True
    with Cons.prems(1)
    have "globalMin cmndf taus (Some (k, cmndf ! k)) (cmndf ! k) = Some (tau, v)" by simp
    moreover have "\<forall>k\<in>set taus. 2 \<le> k" using Cons.prems(2) by simp
    moreover have "2 \<le> t" if "Some (k, cmndf ! k) = Some (t, w)" for t w
      using that Cons.prems(2) by simp
    ultimately show ?thesis by (rule Cons.IH)
  next
    case False
    with Cons.prems(1) have "globalMin cmndf taus best bv = Some (tau, v)" by simp
    moreover have "\<forall>k\<in>set taus. 2 \<le> k" using Cons.prems(2) by simp
    ultimately show ?thesis using Cons.prems(3) by (rule Cons.IH)
  qed
qed

lemma yinRange_ge:
  assumes "k \<in> set (yinRange halfW sr)"
  shows "2 \<le> k"
proof -
  from assms have "nat (max 2 \<lfloor>sr / 2000\<rfloor>) \<le> k" by (simp add: yinRange_def Let_def)
  moreover have "2 \<le> nat (max 2 \<lfloor>sr / 2000\<rfloor>)" by linarith
  ultimately show ?thesis by linarith
qed

lemma yinBest_ge:
  assumes "yinBest cmndf halfW sr thr = Some (tau, v)"
  shows "2 \<le> tau"
proof (cases "firstCrossing cmndf thr (yinRange halfW sr)")
  case None
  with assms have "globalMin cmndf (yinRange halfW sr) None 1 = Some (tau, v)"
    by (simp add: yinBest_def)
  then show ?thesis
    by (rule globalMin_ge) (simp_all add: yinRange_ge)
next
  case (Some b)
  with assms have "firstCrossing cmndf thr (yinRange halfW sr) = Some (tau, v)"
    by (simp add: yinBest_def)
  then show ?thesis
    by (rule firstCrossing_ge) (simp add: yinRange_ge)
qed



text \<open>
  Claim C3. For every frame that fits into the buffer, \<open>yinPitchDetect\<close> returns
  \<open>(null, 0)\<close> exactly when no candidate lag exists, or the refined pitch
  \<open>sampleRate / refinedTau\<close> is outside \<open>[50, 2000]\<close> Hz, or the confidence
  \<open>1 - d'(tau)\<close> is below 0.3. Hence a pitch that is returned lies in \<open>[50, 2000]\<close> Hz
  and comes with a confidence in \<open>[0.3, 1]\<close>. (For a window that does not fit into the
  buffer the function returns \<open>(null, 0)\<close> before it looks for a lag.)
\<close>

theorem yin_rejects_exactly:
  assumes "start + frameLen \<le> length samples"
  shows "(yinPitchDetect samples start frameLen sampleRate threshold = (None, 0) \<longleftrightarrow>
           (case yinBest (yinCmndf samples start (frameLen div 2)) (frameLen div 2)
                   sampleRate threshold of
              None \<Rightarrow> True
            | Some (bestTau, bestVal) \<Rightarrow>
                sampleRate / yinRefine (yinCmndf samples start (frameLen div 2))
                               (frameLen div 2) bestTau < 50 \<or>
                sampleRate / yinRefine (yinCmndf samples start (frameLen div 2))
                               (frameLen div 2) bestTau > 2000 \<or>
                1 - bestVal < 0.3)) \<and>
         (\<forall>f c. yinPitchDetect samples start frameLen sampleRate threshold = (Some f, c) \<longrightarrow>
                50 \<le> f \<and> f \<le> 2000 \<and> 0.3 \<le> c \<and> c \<le> 1)"
proof -
  have av: "\<not> int (min (start + frameLen) (length samples)) - int start < int frameLen"
    using assms by simp
  show ?thesis
  proof (cases "yinBest (yinCmndf samples start (frameLen div 2)) (frameLen div 2) sampleRate threshold")
    case None
    then show ?thesis using av by (simp add: yinPitchDetect_def Let_def)
  next
    case (Some b)
    obtain bestTau bestVal where b: "b = (bestTau, bestVal)" by (cases b)
    from Some b have "2 \<le> bestTau" using yinBest_ge by blast
    then have ge: "\<not> bestTau < 2" by simp
    show ?thesis using av Some b ge
      by (simp add: yinPitchDetect_def Let_def min_def max_def)
  qed
qed

theorem yin_rejects_exactly_witness:
  "0 + 8 \<le> length [1, - 1, 1, - 1, 1, - 1, 1, - 1 :: real] \<and>
   yinPitchDetect [1, - 1, 1, - 1, 1, - 1, 1, - 1] 0 8 200 0.15 = (Some (2000 / 19), 1) \<and>
   (50 :: real) \<le> 2000 / 19 \<and> (2000 :: real) / 19 \<le> 2000 \<and> (0.3 :: real) \<le> 1 \<and>
   yinBest (yinCmndf [0, 0, 0, 0, 0, 0, 0, 0] 0 4) 4 200 0.15 = None \<and>
   yinPitchDetect [0, 0, 0, 0, 0, 0, 0, 0] 0 8 200 0.15 = (None, 0) \<and>
   yinBest (yinCmndf [1, 0, 1, 0, - 1, 0, 0, 0] 0 4) 4 200 0.15 = Some (3, 9 / 11) \<and>
   (1 :: real) - 9 / 11 < 0.3 \<and>
   yinPitchDetect [1, 0, 1, 0, - 1, 0, 0, 0] 0 8 200 0.15 = (None, 0)"
proof -
  have a: "yinPitchDetect [1, - 1, 1, - 1, 1, - 1, 1, - 1] 0 8 200 0.15 = (Some (2000 / 19), 1)"
    by code_simp
  have b: "yinBest (yinCmndf [0, 0, 0, 0, 0, 0, 0, 0] 0 4) 4 200 0.15 = None"
    by code_simp
  have c: "yinBest (yinCmndf [1, 0, 1, 0, - 1, 0, 0, 0] 0 4) 4 200 0.15 = Some (3, 9 / 11)"
    by code_simp
  have d: "(8::nat) div 2 = 4" by simp
  from yin_rejects_exactly [of 0 8 "[1, - 1, 1, - 1, 1, - 1, 1, - 1]" 200 "0.15"] a
  have 1: "(50 :: real) \<le> 2000 / 19 \<and> (2000 :: real) / 19 \<le> 2000 \<and> (0.3 :: real) \<le> 1"
    by simp
  from yin_rejects_exactly [of 0 8 "[0, 0, 0, 0, 0, 0, 0, 0]" 200 "0.15"] b
  have 2: "yinPitchDetect [0, 0, 0, 0, 0, 0, 0, 0] 0 8 200 0.15 = (None, 0)"
    by (simp add: d)
  from yin_rejects_exactly [of 0 8 "[1, 0, 1, 0, - 1, 0, 0, 0]" 200 "0.15"] c
  have 3: "yinPitchDetect [1, 0, 1, 0, - 1, 0, 0, 0] 0 8 200 0.15 = (None, 0)"
    by (simp add: d)
  from a b c 1 2 3 show ?thesis by simp
qed

subsection \<open>The fallback of the MFCC reducer\<close>

text \<open>
  Claim C8. For a list of at least two frames, when the eigendecomposition of the
  covariance matrix throws, or yields an eigenvector matrix that is not 40 by 40,
  \<open>applyPCA\<close> does not abort: it returns every frame, with \<open>pcaCoordinates\<close> set to the
  frame's first three MFCC values, each scaled by 0.1 (a missing value counts as 0).
\<close>

theorem applyPCA_falls_back:
  assumes "2 \<le> length frames"
    and "case evd (pcaCovariance frames) of
           None \<Rightarrow> True
         | Some e \<Rightarrow> evRows e \<noteq> 40 \<or> evColumns e \<noteq> 40"
  shows "applyPCA evd frames = fallbackPcaCoordinates frames \<and>
         length (applyPCA evd frames) = length frames \<and>
         (\<forall>i<length frames.
            applyPCA evd frames ! i =
              (frames ! i)\<lparr> pcaCoordinates :=
                 Some (nthOrZero (mfccs (frames ! i)) 0 * 0.1,
                       nthOrZero (mfccs (frames ! i)) 1 * 0.1,
                       nthOrZero (mfccs (frames ! i)) 2 * 0.1) \<rparr> \<and>
            (3 \<le> length (mfccs (frames ! i)) \<longrightarrow>
               pcaCoordinates (applyPCA evd frames ! i) =
                 Some (mfccs (frames ! i) ! 0 * 0.1, mfccs (frames ! i) ! 1 * 0.1,
                       mfccs (frames ! i) ! 2 * 0.1)))"
proof -
  have fb: "applyPCA evd frames = fallbackPcaCoordinates frames"
    using assms
    by (auto simp: applyPCA_def pcaCovariance_def Let_def PCA_MFCC_DIM_def split: option.splits)
  show ?thesis
    unfolding fb by (simp add: fallbackPcaCoordinates_def nthOrZero_def)
qed

theorem applyPCA_falls_back_witness:
  "(2::nat) \<le> length [\<lparr> frameT = 0, mfccs = [1, 2, 3], pcaCoordinates = None,
        frequency = None, frameAmplitude = None \<rparr>,
      \<lparr> frameT = 1, mfccs = [4, 5, 6], pcaCoordinates = None,
        frequency = None, frameAmplitude = None \<rparr>] \<and>
   applyPCA (\<lambda>c. None)
     [\<lparr> frameT = 0, mfccs = [1, 2, 3], pcaCoordinates = None,
        frequency = None, frameAmplitude = None \<rparr>,
      \<lparr> frameT = 1, mfccs = [4, 5, 6], pcaCoordinates = None,
        frequency = None, frameAmplitude = None \<rparr>] =
     [\<lparr> frameT = 0, mfccs = [1, 2, 3], pcaCoordinates = Some (1 / 10, 2 / 10, 3 / 10),
        frequency = None, frameAmplitude = None \<rparr>,
      \<lparr> frameT = 1, mfccs = [4, 5, 6], pcaCoordinates = Some (4 / 10, 5 / 10, 6 / 10),
        frequency = None, frameAmplitude = None \<rparr>] \<and>
   applyPCA (\<lambda>c. Some \<lparr> eigenvectorMatrix = [[1, 0], [0, 1]], evRows = 2, evColumns = 2,
                          realEigenvalues = [1, 1] \<rparr>)
     [\<lparr> frameT = 0, mfccs = [1, 2, 3], pcaCoordinates = None,
        frequency = None, frameAmplitude = None \<rparr>,
      \<lparr> frameT = 1, mfccs = [4, 5, 6], pcaCoordinates = None,
        frequency = None, frameAmplitude = None \<rparr>] =
     [\<lparr> frameT = 0, mfccs = [1, 2, 3], pcaCoordinates = Some (1 / 10, 2 / 10, 3 / 10),
        frequency = None, frameAmplitude = None \<rparr>,
      \<lparr> frameT = 1, mfccs = [4, 5, 6], pcaCoordinates = Some (4 / 10, 5 / 10, 6 / 10),
        frequency = None, frameAmplitude = None \<rparr>]"
  using applyPCA_falls_back [of
      "[\<lparr> frameT = 0, mfccs = [1, 2, 3], pcaCoordinates = None,
          frequency = None, frameAmplitude = None \<rparr>,
        \<lparr> frameT = 1, mfccs = [4, 5, 6], pcaCoordinates = None,
          frequency = None, frameAmplitude = None \<rparr>]" "\<lambda>c. None"]
    applyPCA_falls_back [of
      "[\<lparr> frameT = 0, mfccs = [1, 2, 3], pcaCoordinates = None,
          frequency = None, frameAmplitude = None \<rparr>,
        \<lparr> frameT = 1, mfccs = [4, 5, 6], pcaCoordinates = None,
          frequency = None, frameAmplitude = None \<rparr>]"
      "\<lambda>c. Some \<lparr> eigenvectorMatrix = [[1, 0], [0, 1]], evRows = 2, evColumns = 2,
                          realEigenvalues = [1, 1] \<rparr>"]
  by (simp add: fallbackPcaCoordinates_def nthOrZero_def)

subsection \<open>The rescaling of the PCA axes\<close>

lemma foldl_min_le: "foldl min (a::real) xs \<le> a \<and> (\<forall>v\<in>set xs. foldl min a xs \<le> v)"
proof (induction xs arbitrary: a)
  case Nil
  then show ?case by simp
next
  case (Cons b bs)
  from Cons.IH[of "min a b"] show ?case by auto
qed

lemma foldl_max_ge: "a \<le> foldl max (a::real) xs \<and> (\<forall>v\<in>set xs. v \<le> foldl max a xs)"
proof (induction xs arbitrary: a)
  case Nil
  then show ?case by simp
next
  case (Cons b bs)
  from Cons.IH[of "max a b"] show ?case by auto
qed

lemma minOf_le: "v \<in> set xs \<Longrightarrow> minOf xs \<le> v"
  using foldl_min_le by (cases xs) auto

lemma le_maxOf: "v \<in> set xs \<Longrightarrow> v \<le> maxOf xs"
  using foldl_max_ge by (cases xs) auto

lemma axis_bounds:
  assumes "i < length ps"
  shows "axisMin ps k \<le> ps ! i ! k \<and> ps ! i ! k \<le> axisMax ps k"
proof -
  have "ps ! i ! k \<in> set (map (\<lambda>pos. pos ! k) ps)" using assms by auto
  then show ?thesis unfolding axisMin_def axisMax_def using minOf_le le_maxOf by blast
qed

lemma rescaled_in_range:
  fixes p lo hi :: real
  assumes "lo \<le> p" "p \<le> hi" "0 < hi - lo"
  shows "- 5 \<le> ((p - lo) / (hi - lo) - 0.5) * 2 * 5 \<and> ((p - lo) / (hi - lo) - 0.5) * 2 * 5 \<le> 5"
proof -
  define q where "q = (p - lo) / (hi - lo)"
  have "0 \<le> q" using assms by (simp add: q_def)
  moreover have "q \<le> 1" using assms by (simp add: q_def)
  ultimately have "- 5 \<le> (q - 0.5) * 2 * 5 \<and> (q - 0.5) * 2 * 5 \<le> 5" by simp
  then show ?thesis by (simp only: q_def)
qed

lemma rescalePositions_nth:
  assumes "i < length ps" "k < 3"
  shows "rescalePositions ps ! i ! k =
           (if 0 < axisMax ps k - axisMin ps k
            then ((ps ! i ! k - axisMin ps k) / (axisMax ps k - axisMin ps k) - 0.5) * 2 * 5
            else ps ! i ! k)"
  using assms by (simp add: rescalePositions_def Let_def)

lemma length_pcaProjection: "length (pcaProjection frames) = length frames"
  by (simp add: pcaProjection_def projectData_def pcaData_def standardize_def Let_def)


text \<open>
  Claim C7. For every non-empty list of frames, every axis \<open>k\<close> of the positions that
  \<open>computePCA\<close> returns is the min-max rescaling of the projected values into
  \<open>[-5, 5]\<close> when these values have a nonzero range, so every coordinate on that axis
  lies in \<open>[-5, 5]\<close>; when the range is zero the projected values are returned as they
  are. The frames are feature records of one dimension with a non-empty chroma vector:
  on other inputs the source computes with \<open>undefined\<close> and \<open>-Infinity\<close>, which the
  reals do not model.
\<close>

theorem computePCA_axes_rescaled:
  assumes "frames \<noteq> []" and "k < 3"
    and "\<forall>f\<in>set frames. chroma f \<noteq> [] \<and> length (mfcc f) = length (mfcc (hd frames)) \<and>
           length (chroma f) = length (chroma (hd frames))"
  shows "length (positions (computePCA frames)) = length frames \<and>
         (axisMax (pcaProjection frames) k - axisMin (pcaProjection frames) k \<noteq> 0 \<longrightarrow>
            (\<forall>i<length frames.
               positions (computePCA frames) ! i ! k =
                 ((pcaProjection frames ! i ! k - axisMin (pcaProjection frames) k) /
                    (axisMax (pcaProjection frames) k - axisMin (pcaProjection frames) k)
                  - 0.5) * 2 * 5 \<and>
               - 5 \<le> positions (computePCA frames) ! i ! k \<and>
               positions (computePCA frames) ! i ! k \<le> 5)) \<and>
         (axisMax (pcaProjection frames) k - axisMin (pcaProjection frames) k = 0 \<longrightarrow>
            (\<forall>i<length frames.
               positions (computePCA frames) ! i ! k = pcaProjection frames ! i ! k))"
proof -
  let ?raw = "pcaProjection frames"
  have out: "positions (computePCA frames) = rescalePositions ?raw"
    using assms(1) by (simp add: computePCA_def Let_def)
  have len: "length ?raw = length frames" by (rule length_pcaProjection)
  have "0 < length ?raw" using assms(1) len by simp
  from axis_bounds [OF this, of k] have nonneg: "0 \<le> axisMax ?raw k - axisMin ?raw k"
    by simp
  have 1: "length (positions (computePCA frames)) = length frames"
    by (simp add: out rescalePositions_def len)
  have 2: "positions (computePCA frames) ! i ! k =
             ((?raw ! i ! k - axisMin ?raw k) / (axisMax ?raw k - axisMin ?raw k) - 0.5) * 2 * 5 \<and>
           - 5 \<le> positions (computePCA frames) ! i ! k \<and>
           positions (computePCA frames) ! i ! k \<le> 5"
    if "axisMax ?raw k - axisMin ?raw k \<noteq> 0" "i < length frames" for i
  proof -
    have pos: "0 < axisMax ?raw k - axisMin ?raw k" using that(1) nonneg by simp
    have i: "i < length ?raw" using that(2) len by simp
    have eq: "positions (computePCA frames) ! i ! k =
             ((?raw ! i ! k - axisMin ?raw k) / (axisMax ?raw k - axisMin ?raw k) - 0.5) * 2 * 5"
      using pos by (simp add: out rescalePositions_nth [OF i assms(2)])
    from axis_bounds [OF i, of k] pos
    have "- 5 \<le> ((?raw ! i ! k - axisMin ?raw k) / (axisMax ?raw k - axisMin ?raw k) - 0.5) * 2 * 5 \<and>
          ((?raw ! i ! k - axisMin ?raw k) / (axisMax ?raw k - axisMin ?raw k) - 0.5) * 2 * 5 \<le> 5"
      by (intro rescaled_in_range) auto
    with eq show ?thesis by simp
  qed
  have 3: "positions (computePCA frames) ! i ! k = ?raw ! i ! k"
    if "axisMax ?raw k - axisMin ?raw k = 0" "i < length frames" for i
  proof -
    have i: "i < length ?raw" using that(2) len by simp
    show ?thesis using that(1) by (simp add: out rescalePositions_nth [OF i assms(2)])
  qed
  from 1 2 3 show ?thesis by blast
qed

text \<open>
  The witness: one frame alone has the projection \<open>(0, 0, 0)\<close>, of range zero, and keeps
  it; two frames that differ in loudness are projected to 1 and -1 on the first axis
  and rescaled to 5 and -5.
\<close>

lemma upt_0_6: "[0..<6] = [0, 1, 2, 3, 4, 5]"
  by code_simp

lemma upt_0_3: "[0..<3] = [0, 1, 2]"
  by code_simp

lemma buildFeatureVector_quietFrame: "buildFeatureVector (quietFrame l) = [0, 0, 0, l, 0, 0]"
  by (simp add: buildFeatureVector_def quietFrame_def)

lemma sqrt_quarter: "sqrt (1 / 4) = 1 / 2"
  by (rule real_sqrt_unique) (simp_all add: power2_eq_square)

lemma pcaData_one_frame: "pcaData [quietFrame 0] = [[0, 0, 0, 0, 0, 0]]"
  by (simp add: pcaData_def buildFeatureVector_quietFrame computeMean_def computeStd_def standardize_def upt_0_6 Let_def)

lemma pcaData_two_frames: "pcaData [quietFrame 0, quietFrame 1] = [[0, 0, 0, - 1, 0, 0], [0, 0, 0, 1, 0, 0]]"
  by (simp add: pcaData_def buildFeatureVector_quietFrame computeMean_def computeStd_def standardize_def upt_0_6 Let_def sqrt_quarter)


lemma covariance_two_frames:
  "computeCovarianceMatrix [[0, 0, 0, - 1, 0, 0], [0, 0, 0, 1, 0, 0]] = unitCov"
  by (simp add: computeCovarianceMatrix_def upt_0_6 Let_def unitCov_def)

lemma matVec_unitCov:
  "matVec unitCov [a, b, c, d, e, g] = [0, 0, 0, d, 0, 0]"
  by (simp add: matVec_def unitCov_def upt_0_6)

lemma powerLoop_fixed:
  "powerLoop unitCov (Suc n) [0, 0, 0, - 1, 0, 0] ev = (1, [0, 0, 0, - 1, 0, 0])"
  by (induction n arbitrary: ev) (simp_all add: matVec_unitCov)

lemma initVector6:
  "initVector 6 = map (\<lambda>c. c / sqrt (955 / 100)) [1, - 1.1, 1.2, - 1.3, 1.4, - 1.5]"
proof -
  have "(0::real) < sqrt (955 / 100)" by simp
  then show ?thesis
    by (simp add: initVector_def upt_0_6 Let_def)
qed


lemma powerIteration_unitCov: "powerIteration unitCov = (1, [0, 0, 0, - 1, 0, 0])"
proof -
  define s :: real where "s = sqrt (955 / 100)"
  have pos: "0 < s" by (simp add: s_def)
  have "s \<le> sqrt 16" unfolding s_def by (rule real_sqrt_le_mono) simp
  also have "sqrt 16 = 4" by (rule real_sqrt_unique) simp_all
  finally have le4: "s \<le> 4" .
  have nrm: "sqrt (169 / (100 * (s * s))) = 13 / (10 * s)"
    by (rule real_sqrt_unique) (use pos in \<open>simp_all add: power2_eq_square\<close>)
  have big: "\<not> 1.3 / s < 1 / 10 ^ 10"
  proof -
    have "1.3 / 4 \<le> 1.3 / s" using pos le4 by (intro divide_left_mono) simp_all
    then show ?thesis by simp
  qed
  have v0: "initVector 6 = [1 / s, - 1.1 / s, 1.2 / s, - 1.3 / s, 1.4 / s, - 1.5 / s]"
    by (simp add: initVector6 s_def)
  have len: "length unitCov = 6" by (simp add: unitCov_def)
  have n200: "(200::nat) = Suc (Suc 198)" by simp
  have "powerLoop unitCov (Suc (Suc 198)) (initVector 6) 0 =
        powerLoop unitCov (Suc 198) [0, 0, 0, - 1, 0, 0] (1.3 / s)"
    unfolding v0 using pos big
    by (subst powerLoop.simps(2)) (simp add: matVec_unitCov nrm Let_def)
  then show ?thesis
    by (simp only: powerIteration_def len n200 powerLoop_fixed)
qed


lemma projection_one_frame: "pcaProjection [quietFrame 0] = [[0, 0, 0]]"
  by (simp add: pcaProjection_def pcaData_one_frame projectData_def upt_0_6 upt_0_3 Let_def)

lemma first_component:
  "map snd (extractComponents 3 unitCov) ! 0 = [0, 0, 0, - 1, 0, 0]"
  by (simp add: numeral_3_eq_3 powerIteration_unitCov)

lemma projection_two_frames_axis0:
  "map (\<lambda>pos. pos ! 0) (pcaProjection [quietFrame 0, quietFrame 1]) = [1, - 1]"
  by (simp add: pcaProjection_def pcaData_two_frames covariance_two_frames projectData_def upt_0_6 upt_0_3 Let_def first_component)


theorem computePCA_axes_rescaled_witness:
  "[quietFrame 0] \<noteq> [] \<and> (0::nat) < 3 \<and>
   pcaProjection [quietFrame 0] = [[0, 0, 0]] \<and>
   positions (computePCA [quietFrame 0]) ! 0 ! 0 = 0 \<and>
   axisMax (pcaProjection [quietFrame 0]) 0 - axisMin (pcaProjection [quietFrame 0]) 0 = 0 \<and>
   axisMax (pcaProjection [quietFrame 0, quietFrame 1]) 0
     - axisMin (pcaProjection [quietFrame 0, quietFrame 1]) 0 = 2 \<and>
   positions (computePCA [quietFrame 0, quietFrame 1]) ! 0 ! 0 = 5 \<and>
   positions (computePCA [quietFrame 0, quietFrame 1]) ! 1 ! 0 = - 5"
proof -
  let ?two = "[quietFrame 0, quietFrame 1]"
  have wf1: "\<forall>f\<in>set [quietFrame 0]. chroma f \<noteq> [] \<and>
      length (mfcc f) = length (mfcc (hd [quietFrame 0])) \<and>
      length (chroma f) = length (chroma (hd [quietFrame 0]))"
    by (simp add: quietFrame_def)
  have wf2: "\<forall>f\<in>set ?two. chroma f \<noteq> [] \<and>
      length (mfcc f) = length (mfcc (hd ?two)) \<and>
      length (chroma f) = length (chroma (hd ?two))"
    by (simp add: quietFrame_def)
  have r1: "axisMax (pcaProjection [quietFrame 0]) 0 - axisMin (pcaProjection [quietFrame 0]) 0 = 0"
    by (simp add: projection_one_frame axisMax_def axisMin_def)
  have mx: "axisMax (pcaProjection ?two) 0 = 1" and mn: "axisMin (pcaProjection ?two) 0 = - 1"
    by (simp_all add: axisMax_def axisMin_def projection_two_frames_axis0)
  have p0: "pcaProjection ?two ! 0 ! 0 = 1" and p1: "pcaProjection ?two ! 1 ! 0 = - 1"
    using projection_two_frames_axis0 length_pcaProjection [of ?two]
    by (auto simp: map_eq_Cons_conv)
  have a: "positions (computePCA [quietFrame 0]) ! 0 ! 0 = 0"
    using computePCA_axes_rescaled [of "[quietFrame 0]" 0, OF _ _ wf1] r1
    by (simp add: projection_one_frame)
  have ne: "?two \<noteq> []" and k3: "(0::nat) < 3" by simp_all
  have range: "axisMax (pcaProjection ?two) 0 - axisMin (pcaProjection ?two) 0 \<noteq> 0"
    by (simp add: mx mn)
  have i0: "0 < length ?two" and i1: "1 < length ?two" by simp_all
  note T = computePCA_axes_rescaled [OF ne k3 wf2]
  from T range have all: "\<forall>i<length ?two. positions (computePCA ?two) ! i ! 0 =
          ((pcaProjection ?two ! i ! 0 - axisMin (pcaProjection ?two) 0) /
             (axisMax (pcaProjection ?two) 0 - axisMin (pcaProjection ?two) 0) - 0.5) * 2 * 5 \<and>
          - 5 \<le> positions (computePCA ?two) ! i ! 0 \<and> positions (computePCA ?two) ! i ! 0 \<le> 5"
    by blast
  from all i0 have "positions (computePCA ?two) ! 0 ! 0 =
          ((pcaProjection ?two ! 0 ! 0 - axisMin (pcaProjection ?two) 0) /
             (axisMax (pcaProjection ?two) 0 - axisMin (pcaProjection ?two) 0) - 0.5) * 2 * 5"
    by blast
  moreover from all i1 have "positions (computePCA ?two) ! 1 ! 0 =
          ((pcaProjection ?two ! 1 ! 0 - axisMin (pcaProjection ?two) 0) /
             (axisMax (pcaProjection ?two) 0 - axisMin (pcaProjection ?two) 0) - 0.5) * 2 * 5"
    by blast
  ultimately have "positions (computePCA ?two) ! 0 ! 0 = ((1 - (- 1)) / (1 - (- 1)) - 0.5) * 2 * 5"
    and "positions (computePCA ?two) ! 1 ! 0 = ((- 1 - (- 1)) / (1 - (- 1)) - 0.5) * 2 * 5"
    unfolding mx mn p0 p1 by blast+
  then have b: "positions (computePCA ?two) ! 0 ! 0 = 5 \<and> positions (computePCA ?two) ! 1 ! 0 = - 5"
    by simp
  from a b r1 show ?thesis by (simp add: projection_one_frame mx mn)
qed

end
